theory Spec2Isabelle
  imports Main
begin

section \<open>Strings\<close>

text \<open>
  A Python \<open>str\<close> is modelled as a \<open>string\<close>; a character is a code point below 256.
  \<open>isspace\<close> is Python's \<open>str.isspace\<close> on that range: tab, line feed, vertical tab,
  form feed, carriage return, the four separators 28 to 31, the space, NEL (133) and the
  no-break space (160).
\<close>

definition isspace :: "char \<Rightarrow> bool" where
  "isspace c = (of_char c \<in> set [9, 10, 11, 12, 13, 28, 29, 30, 31, 32, 133, 160 :: nat])"

text \<open>\<open>s.strip()\<close>: leading and trailing whitespace removed.\<close>

definition strip :: "string \<Rightarrow> string" where
  "strip s = rev (dropWhile isspace (rev (dropWhile isspace s)))"

text \<open>\<open>sep.join(xs)\<close>.\<close>

fun join :: "string \<Rightarrow> string list \<Rightarrow> string" where
  "join sep [] = []"
| "join sep [x] = x"
| "join sep (x # y # ys) = x @ sep @ join sep (y # ys)"

text \<open>\<open>s.split(c)\<close> for a one-character separator: every occurrence splits, empty pieces are kept.\<close>

fun split_on :: "char \<Rightarrow> string \<Rightarrow> string list" where
  "split_on c [] = [[]]"
| "split_on c (x # xs) =
     (if x = c then [] # split_on c xs
      else (let r = split_on c xs in (x # hd r) # tl r))"

section \<open>Exceptions and results\<close>

datatype exn =
    IndexError
  | NameError string
  | PdfReadError
  | FileExistsError
  | IsADirectoryError

type_synonym 'a result = "exn + 'a"

text \<open>Sequencing of two statements: the second runs only when the first did not raise.\<close>

definition bind :: "'a result \<Rightarrow> ('a \<Rightarrow> 'b result) \<Rightarrow> 'b result" where
  "bind m f = (case m of Inl e \<Rightarrow> Inl e | Inr x \<Rightarrow> f x)"

section \<open>Data frames\<close>

text \<open>
  A \<open>pandas.DataFrame\<close> with a default integer index: the number of rows, the column
  labels in order, and the cell at each (row, column) position. Cells are strings: the raw
  grid holds tokens and the empty-string padding, so \<open>fillna('')\<close>, \<open>astype(str)\<close>,
  \<open>str(x)\<close> and \<open>pd.notna(x)\<close> change nothing on it. Only the cells inside the shape are
  part of the frame.
\<close>

record dataframe =
  index_len :: nat
  columns :: "string list"
  cell :: "nat \<Rightarrow> nat \<Rightarrow> string"

type_synonym series = "string list"

definition shape0 :: "dataframe \<Rightarrow> nat" where
  "shape0 df = index_len df"

definition shape1 :: "dataframe \<Rightarrow> nat" where
  "shape1 df = length (columns df)"

text \<open>\<open>df.empty\<close>: some axis has length 0.\<close>

definition empty_df :: "dataframe \<Rightarrow> bool" where
  "empty_df df = (shape0 df = 0 \<or> shape1 df = 0)"

text \<open>\<open>pd.DataFrame()\<close> and \<open>pd.DataFrame(columns=cs)\<close>: no rows.\<close>

definition DataFrame_columns :: "string list \<Rightarrow> dataframe" where
  "DataFrame_columns cs = \<lparr>index_len = 0, columns = cs, cell = (\<lambda>r c. [])\<rparr>"

definition DataFrame_new :: dataframe where
  "DataFrame_new = DataFrame_columns []"

text \<open>
  \<open>pd.DataFrame(rows, columns=cs).fillna("")\<close>: one frame row per list, short rows
  padded with the empty string.
\<close>

definition DataFrame_rows :: "string list list \<Rightarrow> string list \<Rightarrow> dataframe" where
  "DataFrame_rows rs cs =
     \<lparr>index_len = length rs, columns = cs,
      cell = (\<lambda>r c. if r < length rs \<and> c < length (rs ! r) then rs ! r ! c else [])\<rparr>"

text \<open>
  \<open>pd.DataFrame({k1: v1, k2: v2})\<close> from two lists of the same length.
\<close>

definition DataFrame_dict2 :: "string \<Rightarrow> string list \<Rightarrow> string \<Rightarrow> string list \<Rightarrow> dataframe" where
  "DataFrame_dict2 k1 v1 k2 v2 =
     \<lparr>index_len = length v1, columns = [k1, k2],
      cell = (\<lambda>r c. if c = 0 then (if r < length v1 then v1 ! r else [])
                     else (if r < length v2 then v2 ! r else []))\<rparr>"

text \<open>\<open>df.iloc[r, c]\<close> with integers: raises IndexError out of bounds.\<close>

definition iloc :: "dataframe \<Rightarrow> nat \<Rightarrow> nat \<Rightarrow> string result" where
  "iloc df r c =
     (if r < shape0 df \<and> c < shape1 df then Inr (cell df r c) else Inl IndexError)"

text \<open>
  \<open>df.iloc[r0:r1, c0:c1].reset_index(drop=True)\<close>: slices are clipped to the shape and never
  raise; the rows of the result are numbered from 0.
\<close>

definition iloc_block :: "dataframe \<Rightarrow> nat \<Rightarrow> nat \<Rightarrow> nat \<Rightarrow> nat \<Rightarrow> dataframe" where
  "iloc_block df r0 r1 c0 c1 =
     \<lparr>index_len = min r1 (shape0 df) - r0,
      columns = drop c0 (take c1 (columns df)),
      cell = (\<lambda>r c. cell df (r0 + r) (c0 + c))\<rparr>"

text \<open>\<open>df.iloc[:, c]\<close>: the column at position \<open>c\<close> as a series; IndexError out of bounds.\<close>

definition iloc_col :: "dataframe \<Rightarrow> nat \<Rightarrow> series result" where
  "iloc_col df c =
     (if c < shape1 df then Inr (map (\<lambda>r. cell df r c) [0..<shape0 df]) else Inl IndexError)"

text \<open>
  \<open>df.iloc[r, c0:c1].tolist()\<close> (\<open>c1 = None\<close>: to the end): the row index raises IndexError
  out of bounds, the column slice is clipped.
\<close>

definition iloc_row :: "dataframe \<Rightarrow> nat \<Rightarrow> nat \<Rightarrow> nat option \<Rightarrow> string list result" where
  "iloc_row df r c0 c1 =
     (if r < shape0 df
      then Inr (map (cell df r)
                 [c0..<(case c1 of None \<Rightarrow> shape1 df | Some e \<Rightarrow> min e (shape1 df))])
      else Inl IndexError)"

text \<open>
  \<open>df[name] = s\<close> for a series \<open>s\<close> with a default index: a frame without columns takes
  the index of the series; otherwise the values are aligned by position. An existing
  label is overwritten, a new one is appended.
\<close>

definition find_col :: "string list \<Rightarrow> string \<Rightarrow> nat" where
  "find_col cs name = length (takeWhile (\<lambda>c. c \<noteq> name) cs)"

definition setitem :: "dataframe \<Rightarrow> string \<Rightarrow> series \<Rightarrow> dataframe" where
  "setitem df name s =
     (let k = find_col (columns df) name in
      \<lparr>index_len = (if columns df = [] then length s else index_len df),
       columns = (if k < length (columns df) then columns df else columns df @ [name]),
       cell = (\<lambda>r c. if c = k then (if r < length s then s ! r else []) else cell df r c)\<rparr>)"

text \<open>The statement \<open>df[name] = rhs\<close>, where evaluating \<open>rhs\<close> may raise.\<close>

definition assign :: "dataframe \<Rightarrow> string \<Rightarrow> series result \<Rightarrow> dataframe result" where
  "assign df name rhs = bind rhs (\<lambda>s. Inr (setitem df name s))"

text \<open>\<open>df[name]\<close> read by position, as a list of values.\<close>

definition column_values :: "dataframe \<Rightarrow> nat \<Rightarrow> series" where
  "column_values df c = map (\<lambda>r. cell df r c) [0..<index_len df]"

section \<open>Series operations of the pipe extractors\<close>

text \<open>\<open>s.fillna('').astype(str).str.strip()\<close>.\<close>

definition str_strip :: "series \<Rightarrow> series" where
  "str_strip s = map strip s"

text \<open>\<open>s + " "\<close> and \<open>s + t\<close> on series with the same index.\<close>

definition add_str :: "series \<Rightarrow> string \<Rightarrow> series" where
  "add_str s x = map (\<lambda>v. v @ x) s"

definition add_series :: "series \<Rightarrow> series \<Rightarrow> series" where
  "add_series s t = map (\<lambda>(v, w). v @ w) (zip s t)"

text \<open>
  The pipe-size expression of both pipe extractors:
  \<open>(a.str.strip() + " " + b.str.strip() + " " + c.str.strip()).str.strip()\<close>.
\<close>

definition pipe_size :: "series \<Rightarrow> series \<Rightarrow> series \<Rightarrow> series" where
  "pipe_size a b c =
     str_strip (add_series (add_str (add_series (add_str (str_strip a) '' '') (str_strip b)) '' '')
                           (str_strip c))"

text \<open>The same expression on one row.\<close>

definition pipe_size_cell :: "string \<Rightarrow> string \<Rightarrow> string \<Rightarrow> string" where
  "pipe_size_cell a b c = strip (strip a @ '' '' @ strip b @ '' '' @ strip c)"

section \<open>Field extractors\<close>

text \<open>
  Every extractor returns the lines it printed together with the table it built, or the
  exception it raised.
\<close>

definition incoming_schema :: "string list" where
  "incoming_schema =
     [''ID'', ''UPSTREAM REFERENCE'', ''PIPE SHAPE'', ''PIPE SIZE (mm)'',
      ''BACKDROP DIAM (mm)'', ''PIPE MATERIAL'', ''LINING'',
      ''DEPTH FROM COVER (m)'', ''INVERT LEVEL (m AD)'']"

definition outgoing_schema :: "string list" where
  "outgoing_schema =
     [''ID'', ''UPSTREAM REFERENCE'', ''PIPE SHAPE'', ''PIPE SIZE (mm)'',
      ''COND'', ''CRITY'', ''PIPE MATERIAL'', ''LINING'',
      ''DEPTH FROM COVER (m)'', ''INVERT LEVEL (m AD)'']"

definition incoming_warning :: string where
  "incoming_warning = ''Warning: Raw DataFrame too small for incoming pipe extraction.''"

definition outgoing_warning :: string where
  "outgoing_warning = ''Warning: Raw DataFrame too small for outgoing pipe extraction.''"

definition extract_incoming_pipes :: "dataframe \<Rightarrow> (string list \<times> dataframe) result" where
  "extract_incoming_pipes df_raw =
     (if empty_df df_raw \<or> shape0 df_raw < 70 \<or> shape1 df_raw < 11
      then Inr ([incoming_warning], DataFrame_columns incoming_schema)
      else
        (let pipe_data_in = iloc_block df_raw 63 70 0 11 in
         bind (assign DataFrame_new ''ID'' (iloc_col pipe_data_in 0)) (\<lambda>f1.
         bind (assign f1 ''UPSTREAM REFERENCE'' (iloc_col pipe_data_in 1)) (\<lambda>f2.
         bind (assign f2 ''PIPE SHAPE'' (iloc_col pipe_data_in 2)) (\<lambda>f3.
         bind (iloc_col pipe_data_in 3) (\<lambda>a.
         bind (iloc_col pipe_data_in 4) (\<lambda>b.
         bind (iloc_col pipe_data_in 5) (\<lambda>c.
         bind (assign f3 ''PIPE SIZE (mm)'' (Inr (pipe_size a b c))) (\<lambda>f4.
         bind (assign f4 ''BACKDROP DIAM (mm)'' (iloc_col pipe_data_in 6)) (\<lambda>f5.
         bind (assign f5 ''PIPE MATERIAL'' (iloc_col pipe_data_in 7)) (\<lambda>f6.
         bind (assign f6 ''LINING'' (iloc_col pipe_data_in 8)) (\<lambda>f7.
         bind (assign f7 ''DEPTH FROM COVER (m)'' (iloc_col pipe_data_in 9)) (\<lambda>f8.
         bind (assign f8 ''INVERT LEVEL (m AD)'' (iloc_col pipe_data_in 10)) (\<lambda>f9.
         Inr ([], f9)))))))))))))))"

definition extract_outgoing_pipes :: "dataframe \<Rightarrow> (string list \<times> dataframe) result" where
  "extract_outgoing_pipes df_raw =
     (if empty_df df_raw \<or> shape0 df_raw < 85 \<or> shape1 df_raw < 12
      then Inr ([outgoing_warning], DataFrame_columns outgoing_schema)
      else
        (let pipe_data_out = iloc_block df_raw 83 85 0 12 in
         bind (assign DataFrame_new ''ID'' (iloc_col pipe_data_out 0)) (\<lambda>f1.
         bind (assign f1 ''UPSTREAM REFERENCE'' (iloc_col pipe_data_out 1)) (\<lambda>f2.
         bind (assign f2 ''PIPE SHAPE'' (iloc_col pipe_data_out 2)) (\<lambda>f3.
         bind (iloc_col pipe_data_out 3) (\<lambda>a.
         bind (iloc_col pipe_data_out 4) (\<lambda>b.
         bind (iloc_col pipe_data_out 5) (\<lambda>c.
         bind (assign f3 ''PIPE SIZE (mm)'' (Inr (pipe_size a b c))) (\<lambda>f4.
         bind (assign f4 ''COND'' (iloc_col pipe_data_out 6)) (\<lambda>f5.
         bind (assign f5 ''CRITY'' (iloc_col pipe_data_out 7)) (\<lambda>f6.
         bind (assign f6 ''PIPE MATERIAL'' (iloc_col pipe_data_out 8)) (\<lambda>f7.
         bind (assign f7 ''LINING'' (iloc_col pipe_data_out 9)) (\<lambda>f8.
         bind (assign f8 ''DEPTH FROM COVER (m)'' (iloc_col pipe_data_out 10)) (\<lambda>f9.
         bind (assign f9 ''INVERT LEVEL (m AD)'' (iloc_col pipe_data_out 11)) (\<lambda>f10.
         Inr ([], f10))))))))))))))))"

subsection \<open>Location details\<close>

text \<open>The two local helpers of \<open>extract_location_data\<close>.\<close>

definition get_val :: "dataframe \<Rightarrow> nat \<Rightarrow> nat \<Rightarrow> string result" where
  "get_val df row col =
     (if shape0 df > row \<and> shape1 df > col
      then bind (iloc df row col) (\<lambda>v. Inr (strip v))
      else Inr [])"

definition join_row_range :: "dataframe \<Rightarrow> nat \<Rightarrow> nat \<Rightarrow> nat option \<Rightarrow> string result" where
  "join_row_range df row start_col end_col =
     (if shape0 df \<le> row then Inr []
      else bind (iloc_row df row start_col end_col) (\<lambda>cols_to_use.
             Inr (join '' '' (map strip (filter (\<lambda>x. strip x \<noteq> []) cols_to_use)))))"

text \<open>
  The coordinate pair of a cell text:
  \<open>if "," in t: parts = t.split(","); if len(parts) >= 2: x, y = parts[0].strip(), parts[1].strip()\<close>.
\<close>

definition coordinates :: "string \<Rightarrow> string \<times> string" where
  "coordinates coord_text =
     (if CHR '','' \<in> set coord_text
      then (let parts = split_on CHR '','' coord_text in
            if length parts \<ge> 2 then (strip (parts ! 0), strip (parts ! 1)) else ([], []))
      else ([], []))"

definition location_components :: "string list" where
  "location_components =
     [''Node Reference'', ''Coordinates X'', ''Coordinates Y'', ''Location'',
      ''Drainage Area Code'', ''Survey Date'',
      ''Year Laid'', ''Status'', ''Function'', ''Node Type'',
      ''Cover Shape'', ''Hinged'', ''Lock'', ''Duty'', ''Cover Size'',
      ''Side Entry'', ''Reg Course'', ''Depth'', ''Shaft Size'',
      ''Soffit'', ''Steps'', ''Ladders'', ''Landings'', ''Chamber Size'',
      ''Depth of Flow (mm)'', ''Depth of Silt (mm)'', ''Surch Height (mm)'',
      ''Cover Level (m AD)'', ''Notes'']"

definition location_schema :: "string list" where
  "location_schema = [''COMPONENTS'', ''VALUE'']"

definition extract_location_data :: "dataframe \<Rightarrow> (string list \<times> dataframe) result" where
  "extract_location_data df_raw =
     bind (get_val df_raw 8 2) (\<lambda>node_reference_value.
     bind (get_val df_raw 9 2) (\<lambda>coord_text.
     (case coordinates coord_text of (x_ref, y_ref) \<Rightarrow>
     bind (join_row_range df_raw 10 1 None) (\<lambda>location_str.
     bind (get_val df_raw 12 1) (\<lambda>drainage_code.
     bind (join_row_range df_raw 13 2 None) (\<lambda>survey_date.
     bind (get_val df_raw 15 2) (\<lambda>Year_Laid.
     bind (get_val df_raw 15 4) (\<lambda>status_pr.
     bind (get_val df_raw 15 6) (\<lambda>Function_pr.
     bind (get_val df_raw 16 1) (\<lambda>Node_type.
     bind (get_val df_raw 19 2) (\<lambda>Cover_shape.
     bind (get_val df_raw 19 4) (\<lambda>Hinged_st.
     bind (get_val df_raw 19 6) (\<lambda>Lock_st.
     bind (get_val df_raw 19 8) (\<lambda>Duty_st.
     bind (join_row_range df_raw 19 9 None) (\<lambda>Cover_size.
     bind (get_val df_raw 26 1) (\<lambda>Side_entry.
     bind (get_val df_raw 27 1) (\<lambda>Reg_course.
     bind (get_val df_raw 28 1) (\<lambda>Depth.
     bind (join_row_range df_raw 28 2 (Some 5)) (\<lambda>Shaft_size.
     bind (get_val df_raw 30 2) (\<lambda>Soffit.
     bind (get_val df_raw 32 0) (\<lambda>Steps.
     bind (get_val df_raw 34 1) (\<lambda>Ladders.
     bind (get_val df_raw 34 3) (\<lambda>Landings.
     bind (join_row_range df_raw 34 4 (Some 7)) (\<lambda>Chamber_size.
     bind (get_val df_raw 38 2) (\<lambda>Flow_depth.
     bind (get_val df_raw 39 2) (\<lambda>Silting.
     bind (get_val df_raw 44 0) (\<lambda>Surch.
     bind (get_val df_raw 47 2) (\<lambda>MH_cover.
     bind (get_val df_raw 95 0) (\<lambda>notes_95.
     bind (join_row_range df_raw 96 0 None) (\<lambda>notes_96.
     (let Notes = strip (notes_95 @ '' '' @ notes_96) in
      Inr ([], DataFrame_dict2
        ''COMPONENTS'' location_components
        ''VALUE''
          [node_reference_value, x_ref, y_ref, location_str, drainage_code, survey_date,
           Year_Laid, status_pr, Function_pr, Node_type,
           Cover_shape, Hinged_st, Lock_st, Duty_st, Cover_size,
           Side_entry, Reg_course, Depth, Shaft_size,
           Soffit, Steps, Ladders, Landings, Chamber_size,
           Flow_depth, Silting, Surch, MH_cover, Notes]))))))))))))))))))))))))))))))))"

section \<open>What the extractors compute\<close>

text \<open>
  The value \<open>get_val\<close> returns and the value \<open>join_row_range\<close> returns, as total
  functions of the grid; the lemmas below show that the helpers return exactly these and
  never raise.
\<close>

definition cell_text :: "dataframe \<Rightarrow> nat \<Rightarrow> nat \<Rightarrow> string" where
  "cell_text df r c = (if r < shape0 df \<and> c < shape1 df then strip (cell df r c) else [])"

definition row_text :: "dataframe \<Rightarrow> nat \<Rightarrow> nat \<Rightarrow> nat option \<Rightarrow> string" where
  "row_text df r c0 c1 =
     (if shape0 df \<le> r then []
      else join '' '' (map strip (filter (\<lambda>x. strip x \<noteq> [])
             (map (cell df r)
                [c0..<(case c1 of None \<Rightarrow> shape1 df | Some e \<Rightarrow> min e (shape1 df))]))))"

definition location_values :: "dataframe \<Rightarrow> string list" where
  "location_values df =
     [cell_text df 8 2, fst (coordinates (cell_text df 9 2)), snd (coordinates (cell_text df 9 2)),
      row_text df 10 1 None, cell_text df 12 1, row_text df 13 2 None,
      cell_text df 15 2, cell_text df 15 4, cell_text df 15 6, cell_text df 16 1,
      cell_text df 19 2, cell_text df 19 4, cell_text df 19 6, cell_text df 19 8,
      row_text df 19 9 None,
      cell_text df 26 1, cell_text df 27 1, cell_text df 28 1, row_text df 28 2 (Some 5),
      cell_text df 30 2, cell_text df 32 0, cell_text df 34 1, cell_text df 34 3,
      row_text df 34 4 (Some 7),
      cell_text df 38 2, cell_text df 39 2, cell_text df 44 0, cell_text df 47 2,
      strip (cell_text df 95 0 @ '' '' @ row_text df 96 0 None)]"

text \<open>Reading an extractor's result: a cell of the table, the printed lines, the row count.\<close>

definition value_at :: "(string list \<times> dataframe) result \<Rightarrow> nat \<Rightarrow> nat \<Rightarrow> string result" where
  "value_at res r c = bind res (\<lambda>(out, t). iloc t r c)"

definition printed :: "(string list \<times> dataframe) result \<Rightarrow> string list result" where
  "printed res = bind res (\<lambda>(out, t). Inr out)"

definition row_count :: "(string list \<times> dataframe) result \<Rightarrow> nat result" where
  "row_count res = bind res (\<lambda>(out, t). Inr (shape0 t))"

text \<open>The table built by assigning the given columns, in order, to a new frame.\<close>

definition table_of :: "(string \<times> series) list \<Rightarrow> dataframe" where
  "table_of cols = foldl (\<lambda>f (n, s). setitem f n s) DataFrame_new cols"

text \<open>Column \<open>c\<close> of the block of \<open>n\<close> rows starting at row \<open>r0\<close>.\<close>

definition block_col :: "dataframe \<Rightarrow> nat \<Rightarrow> nat \<Rightarrow> nat \<Rightarrow> series" where
  "block_col df r0 n c = map (\<lambda>r. cell df (r0 + r) c) [0..<n]"

text \<open>The text before the first comma, and the text after it.\<close>

definition before_comma :: "string \<Rightarrow> string" where
  "before_comma t = takeWhile (\<lambda>c. c \<noteq> CHR '','') t"

definition after_comma :: "string \<Rightarrow> string" where
  "after_comma t = drop 1 (dropWhile (\<lambda>c. c \<noteq> CHR '','') t)"

text \<open>
  The specification's reading of the coordinate pair: the cell text split at its first comma
  into two halves, both trimmed; no comma gives two empty strings.
\<close>

definition spec_split_first_comma :: "string \<Rightarrow> string \<times> string" where
  "spec_split_first_comma t =
     (if CHR '','' \<in> set t then (strip (before_comma t), strip (after_comma t)) else ([], []))"

text \<open>
  The grid position each of the 29 location values starts from, in the order of the table:
  the cell read by \<open>get_val\<close>, or the row and first column joined by \<open>join_row_range\<close>.
\<close>

definition location_positions :: "(nat \<times> nat) list" where
  "location_positions =
     [(8, 2), (9, 2), (9, 2), (10, 1), (12, 1), (13, 2), (15, 2), (15, 4), (15, 6), (16, 1),
      (19, 2), (19, 4), (19, 6), (19, 8), (19, 9), (26, 1), (27, 1), (28, 1), (28, 2),
      (30, 2), (32, 0), (34, 1), (34, 3), (34, 4), (38, 2), (39, 2), (44, 0), (47, 2), (95, 0)]"

definition in_bounds :: "dataframe \<Rightarrow> nat \<times> nat \<Rightarrow> bool" where
  "in_bounds df p = (fst p < shape0 df \<and> snd p < shape1 df)"

text \<open>
  Concrete grids: 85 rows by 12 columns with the three pipe-size cells of rows 64 and 84
  given, and 10 rows by 3 columns with the coordinate cell given.
\<close>

definition pipe_grid :: "string \<Rightarrow> string \<Rightarrow> string \<Rightarrow> dataframe" where
  "pipe_grid a b c =
     DataFrame_rows
       (replicate 63 [] @ [[''1'', ''MH1'', ''C'', a, b, c]] @ replicate 19 [] @
        [[''A'', ''MH2'', ''C'', a, b, c]] @ replicate 1 [])
       [''Col1'', ''Col2'', ''Col3'', ''Col4'', ''Col5'', ''Col6'', ''Col7'', ''Col8'',
        ''Col9'', ''Col10'', ''Col11'', ''Col12'']"

definition coord_grid :: "string \<Rightarrow> dataframe" where
  "coord_grid t =
     DataFrame_rows (replicate 9 [] @ [[''X'', ''Y'', t]]) [''Col1'', ''Col2'', ''Col3'']"

text \<open>A string without leading or trailing whitespace.\<close>

definition trimmed :: "string \<Rightarrow> bool" where
  "trimmed x = (x = [] \<or> (\<not> isspace (hd x) \<and> \<not> isspace (last x)))"

text \<open>
  The specification's reading of the pipe-size field: the trimmed components that are not
  empty, separated by single spaces.
\<close>

definition spec_pipe_size :: "string \<Rightarrow> string \<Rightarrow> string \<Rightarrow> string" where
  "spec_pipe_size a b c = join '' '' (filter (\<lambda>x. x \<noteq> []) [strip a, strip b, strip c])"

section \<open>More string operations\<close>

text \<open>\<open>s.lower()\<close> on code points below 256: A to Z and the Latin-1 capitals.\<close>

definition lower_char :: "char \<Rightarrow> char" where
  "lower_char c =
     (let n = (of_char c :: nat) in
      if (65 \<le> n \<and> n \<le> 90) \<or> (192 \<le> n \<and> n \<le> 222 \<and> n \<noteq> 215)
      then char_of (n + 32) else c)"

definition lower :: "string \<Rightarrow> string" where
  "lower s = map lower_char s"

text \<open>\<open>s.endswith(t)\<close>.\<close>

definition endswith :: "string \<Rightarrow> string \<Rightarrow> bool" where
  "endswith s t = (length t \<le> length s \<and> drop (length s - length t) s = t)"

text \<open>\<open>s.split()\<close>: the maximal runs of characters that are not whitespace.\<close>

fun split_ws_aux :: "string \<Rightarrow> string \<Rightarrow> string list" where
  "split_ws_aux cur [] = (if cur = [] then [] else [cur])"
| "split_ws_aux cur (c # cs) =
     (if isspace c
      then (if cur = [] then split_ws_aux [] cs else cur # split_ws_aux [] cs)
      else split_ws_aux (cur @ [c]) cs)"

definition split_ws :: "string \<Rightarrow> string list" where
  "split_ws s = split_ws_aux [] s"

text \<open>
  \<open>s.splitlines()\<close>: the line boundaries below 256 are line feed, vertical tab, form feed,
  carriage return (with a following line feed as one boundary), the separators 28 to 30 and
  NEL; a final boundary does not open an empty last line.
\<close>

definition islinebreak :: "char \<Rightarrow> bool" where
  "islinebreak c = (of_char c \<in> set [10, 11, 12, 13, 28, 29, 30, 133 :: nat])"

fun splitlines_aux :: "string \<Rightarrow> string \<Rightarrow> string list" where
  "splitlines_aux cur [] = (if cur = [] then [] else [cur])"
| "splitlines_aux cur [c] = (if islinebreak c then [cur] else [cur @ [c]])"
| "splitlines_aux cur (c # d # cs) =
     (if c = CHR 0x0D \<and> d = CHR 0x0A then cur # splitlines_aux [] cs
      else if islinebreak c then cur # splitlines_aux [] (d # cs)
      else splitlines_aux (cur @ [c]) (d # cs))"

definition splitlines :: "string \<Rightarrow> string list" where
  "splitlines s = splitlines_aux [] s"

text \<open>\<open>str(n)\<close> for a natural number.\<close>

fun str_nat :: "nat \<Rightarrow> string" where
  "str_nat n =
     (if n < 10 then [char_of (48 + n)] else str_nat (n div 10) @ [char_of (48 + n mod 10)])"

text \<open>\<open>os.path.join(a, b)\<close> and \<open>Path(name).stem\<close> on POSIX, for a plain file name.\<close>

definition path_join :: "string \<Rightarrow> string \<Rightarrow> string" where
  "path_join a b =
     (if b \<noteq> [] \<and> hd b = CHR ''/'' then b
      else if a = [] \<or> last a = CHR ''/'' then a @ b
      else a @ ''/'' @ b)"

definition rfind_dot :: "string \<Rightarrow> nat option" where
  "rfind_dot name =
     (if CHR ''.'' \<in> set name
      then Some (length name - 1 - length (takeWhile (\<lambda>c. c \<noteq> CHR ''.'') (rev name)))
      else None)"

definition stem :: "string \<Rightarrow> string" where
  "stem name =
     (case rfind_dot name of
        None \<Rightarrow> name
      | Some i \<Rightarrow> if 0 < i \<and> i < length name - 1 then take i name else name)"

section \<open>The world outside: files, PDF documents, workbooks\<close>

text \<open>
  A page of a PDF document gives its text or makes \<open>extract_text\<close> raise. A worksheet is
  the list of its cell writes (position, text, bold); a workbook is the list of its named
  sheets. Column widths are presentation only and are left out, and the calls that build a
  workbook in memory are taken to succeed.
\<close>

datatype page = Text string | ExtractError

type_synonym sheet = "((nat \<times> nat) \<times> string \<times> bool) list"

type_synonym workbook = "(string \<times> sheet) list"

datatype node = Dir | Pdf "page list" | Xlsx workbook | Other

text \<open>
  The world: what is stored at each path, the lines printed so far, and the triples
  (root, directories, files) that \<open>os.walk\<close> yields for a folder.
\<close>

record world =
  files :: "string \<Rightarrow> node option"
  stdout :: "string list"
  os_walk :: "string \<Rightarrow> (string \<times> string list \<times> string list) list"

definition prints :: "world \<Rightarrow> string list \<Rightarrow> world" where
  "prints w ls = w\<lparr>stdout := stdout w @ ls\<rparr>"

text \<open>The text of an exception, as \<open>{e}\<close> prints it.\<close>

fun exn_str :: "exn \<Rightarrow> string" where
  "exn_str IndexError = ''list index out of range''"
| "exn_str (NameError n) = ''name '' @ [CHR 0x27] @ n @ [CHR 0x27] @ '' is not defined''"
| "exn_str PdfReadError = ''cannot read PDF''"
| "exn_str FileExistsError = ''File exists''"
| "exn_str IsADirectoryError = ''Is a directory''"

text \<open>\<open>PdfReader(path).pages\<close>, \<open>pages[i]\<close> and \<open>page.extract_text()\<close>.\<close>

definition PdfReader :: "world \<Rightarrow> string \<Rightarrow> page list result" where
  "PdfReader w path = (case files w path of Some (Pdf pages) \<Rightarrow> Inr pages | _ \<Rightarrow> Inl PdfReadError)"

definition getitem :: "'a list \<Rightarrow> nat \<Rightarrow> 'a result" where
  "getitem xs i = (if i < length xs then Inr (xs ! i) else Inl IndexError)"

definition extract_text :: "page \<Rightarrow> string result" where
  "extract_text p = (case p of Text s \<Rightarrow> Inr s | ExtractError \<Rightarrow> Inl PdfReadError)"

text \<open>
  The names bound in the module \<open>core.py\<close>: its four imports and its six functions. A name
  that is neither here nor a builtin raises NameError when it is evaluated.
\<close>

definition core_globals :: "string list" where
  "core_globals =
     [''os'', ''Path'', ''PdfReader'', ''pd'',
      ''extract_raw_data'', ''extract_incoming_pipes'', ''extract_outgoing_pipes'',
      ''extract_location_data'', ''process_pdf'', ''run_processing_batch'']"

definition load_global :: "string \<Rightarrow> unit result" where
  "load_global name = (if name \<in> set core_globals then Inr () else Inl (NameError name))"

text \<open>
  \<open>re.search(r"NODE REFERENCE\s*([A-Z0-9]+)", text)\<close>, group 1 of the leftmost match: the
  literal, then whitespace, then a non-empty run of capitals and digits.
\<close>

definition is_upper_or_digit :: "char \<Rightarrow> bool" where
  "is_upper_or_digit c =
     (let n = (of_char c :: nat) in (65 \<le> n \<and> n \<le> 90) \<or> (48 \<le> n \<and> n \<le> 57))"

fun re_search_node :: "string \<Rightarrow> string option" where
  "re_search_node [] = None"
| "re_search_node (c # cs) =
     (if take 14 (c # cs) = ''NODE REFERENCE''
      then (let g = takeWhile is_upper_or_digit (dropWhile isspace (drop 14 (c # cs)))
            in if g \<noteq> [] then Some g else re_search_node cs)
      else re_search_node cs)"

section \<open>Raw extraction\<close>

text \<open>The loop over the pages: the rows of every page with text, or the first exception.\<close>

fun page_rows :: "page list \<Rightarrow> string list list result" where
  "page_rows [] = Inr []"
| "page_rows (p # ps) =
     bind (extract_text p) (\<lambda>text.
     bind (page_rows ps) (\<lambda>rest.
       Inr ((if text \<noteq> [] then map split_ws (splitlines text) else []) @ rest)))"

definition extract_raw_data :: "world \<Rightarrow> string \<Rightarrow> string list \<times> dataframe" where
  "extract_raw_data w pdf_path =
     (case bind (PdfReader w pdf_path) page_rows of
        Inl e \<Rightarrow> ([''Error reading PDF '' @ pdf_path @ '': '' @ exn_str e], DataFrame_new)
      | Inr all_rows \<Rightarrow>
          if all_rows = [] then ([], DataFrame_new)
          else
            (let max_cols = foldr max (map length all_rows) 0;
                 raw_columns = map (\<lambda>i. ''Col'' @ str_nat (i + 1)) [0..<max_cols]
             in ([], DataFrame_rows all_rows raw_columns)))"

section \<open>Processing one PDF\<close>

text \<open>
  The node reference: the cell at row 9, column 3 when the grid has it, otherwise (or when
  that cell is empty) the pattern lookup over the text of the first page, which evaluates the
  global name \<open>re\<close>.
\<close>

definition node_reference :: "world \<Rightarrow> string \<Rightarrow> dataframe \<Rightarrow> string result" where
  "node_reference w pdf_path df_raw =
     bind (if shape0 df_raw > 8 \<and> shape1 df_raw > 2 then iloc df_raw 8 2 else Inr [])
       (\<lambda>node_reference_value.
          if node_reference_value = [] then
            bind (PdfReader w pdf_path) (\<lambda>pages.
            bind (getitem pages 0) (\<lambda>page0.
            bind (extract_text page0) (\<lambda>text_content.
            bind (load_global ''re'') (\<lambda>_.
              (case re_search_node text_content of
                 Some g \<Rightarrow> Inr g
               | None \<Rightarrow> Inr ''UNKNOWN_NODE'')))))
          else Inr node_reference_value)"

text \<open>
  The sheets. \<open>df_raw.to_excel(index=False)\<close> writes the bold header row and the data below
  it; the three field sheets hold the node reference in row 1, the bold headers in row 3 and
  the data from row 4.
\<close>

definition raw_sheet :: "dataframe \<Rightarrow> sheet" where
  "raw_sheet df =
     map (\<lambda>c. ((0, c), columns df ! c, True)) [0..<length (columns df)] @
     concat (map (\<lambda>r. map (\<lambda>c. ((r + 1, c), cell df r c, False)) [0..<length (columns df)])
               [0..<index_len df])"

definition field_sheet :: "string \<Rightarrow> dataframe \<Rightarrow> sheet" where
  "field_sheet node_reference_value df =
     [((0, 0), ''Node Reference'', True), ((0, 1), node_reference_value, False)] @
     concat (map (\<lambda>col_num.
                ((2, col_num), columns df ! col_num, True) #
                map (\<lambda>row_num. ((row_num + 3, col_num), cell df row_num col_num, False))
                  [0..<index_len df])
             [0..<length (columns df)])"

definition build_workbook ::
  "dataframe \<Rightarrow> dataframe \<Rightarrow> dataframe \<Rightarrow> dataframe \<Rightarrow> string \<Rightarrow> workbook" where
  "build_workbook df_raw df_location pipe_data_in_final pipe_data_out_final node =
     [(''Raw Data'', raw_sheet df_raw),
      (''Location Details'', field_sheet node df_location),
      (''Incoming Pipes'', field_sheet node pipe_data_in_final),
      (''Outgoing Pipes'', field_sheet node pipe_data_out_final)]"

text \<open>Saving the workbook when the writer closes: a directory at the path makes it raise.\<close>

definition save_workbook :: "world \<Rightarrow> string \<Rightarrow> workbook \<Rightarrow> world \<times> unit result" where
  "save_workbook w path wb =
     (case files w path of
        Some Dir \<Rightarrow> (w, Inl IsADirectoryError)
      | _ \<Rightarrow> (w\<lparr>files := (files w)(path \<mapsto> Xlsx wb)\<rparr>, Inr ()))"

definition process_pdf :: "world \<Rightarrow> string \<Rightarrow> string \<Rightarrow> world \<times> unit result" where
  "process_pdf w pdf_path output_excel =
     (case extract_raw_data w pdf_path of (out0, df_raw) \<Rightarrow>
      let w0 = prints w out0 in
      if empty_df df_raw
      then (prints w0 [''Skipping '' @ pdf_path @ '': No raw data extracted.''], Inr ())
      else
        (case extract_incoming_pipes df_raw of
           Inl e \<Rightarrow> (w0, Inl e)
         | Inr (out1, pipe_data_in_final) \<Rightarrow>
        (case extract_outgoing_pipes df_raw of
           Inl e \<Rightarrow> (prints w0 out1, Inl e)
         | Inr (out2, pipe_data_out_final) \<Rightarrow>
        (case extract_location_data df_raw of
           Inl e \<Rightarrow> (prints w0 (out1 @ out2), Inl e)
         | Inr (out3, df_location) \<Rightarrow>
        (let w1 = prints w0 (out1 @ out2 @ out3) in
         case node_reference w1 pdf_path df_raw of
           Inl e \<Rightarrow> (w1, Inl e)
         | Inr node_reference_value \<Rightarrow>
             save_workbook w1 output_excel
               (build_workbook df_raw df_location pipe_data_in_final pipe_data_out_final
                  node_reference_value))))))"

section \<open>The batch\<close>

text \<open>
  \<open>os.makedirs(path, exist_ok=True)\<close>: nothing to do for a directory, FileExistsError for
  anything else at the path, a new directory otherwise.
\<close>

definition makedirs :: "world \<Rightarrow> string \<Rightarrow> world \<times> unit result" where
  "makedirs w path =
     (case files w path of
        Some Dir \<Rightarrow> (w, Inr ())
      | Some _ \<Rightarrow> (w, Inl FileExistsError)
      | None \<Rightarrow> (w\<lparr>files := (files w)(path \<mapsto> Dir)\<rparr>, Inr ()))"

text \<open>The body of the inner loop, for one file name of one root.\<close>

definition process_file ::
  "string \<Rightarrow> string \<Rightarrow> string \<Rightarrow> world \<times> string list \<Rightarrow> world \<times> string list" where
  "process_file output_folder root file s =
     (case s of (w, failed_pdfs) \<Rightarrow>
      if endswith (lower file) ''.pdf'' then
        (let pdf_path = path_join root file;
             excel_filename = stem file @ ''.xlsx'';
             output_excel_path = path_join output_folder excel_filename;
             w1 = prints w [''Processing '' @ pdf_path @ '' -> '' @ output_excel_path]
         in case process_pdf w1 pdf_path output_excel_path of
              (w2, Inr _) \<Rightarrow> (w2, failed_pdfs)
            | (w2, Inl e) \<Rightarrow>
                (prints w2 [''Error processing '' @ pdf_path @ '': '' @ exn_str e],
                 failed_pdfs @ [pdf_path]))
      else (w, failed_pdfs))"

definition run_processing_batch :: "world \<Rightarrow> string \<Rightarrow> string \<Rightarrow> world \<times> string list result" where
  "run_processing_batch w input_folder output_folder =
     (case makedirs w output_folder of
        (w1, Inl e) \<Rightarrow> (w1, Inl e)
      | (w1, Inr _) \<Rightarrow>
          (case fold (\<lambda>(root, dirs, fs) s. fold (process_file output_folder root) fs s)
                  (os_walk w1 input_folder) (w1, [])
           of (w2, failed_pdfs) \<Rightarrow> (w2, Inr failed_pdfs)))"

section \<open>What the batch computes\<close>

text \<open>
  What \<open>process_pdf\<close> is about to do with a PDF, before it touches the output path:
  nothing (the grid is empty), raise, or save this workbook.
\<close>

definition outcome :: "world \<Rightarrow> string \<Rightarrow> workbook result option" where
  "outcome w pdf_path =
     (let df_raw = snd (extract_raw_data w pdf_path) in
      if empty_df df_raw then None
      else Some
        (bind (extract_incoming_pipes df_raw) (\<lambda>(out1, pipe_data_in_final).
         bind (extract_outgoing_pipes df_raw) (\<lambda>(out2, pipe_data_out_final).
         bind (extract_location_data df_raw) (\<lambda>(out3, df_location).
         bind (node_reference w pdf_path df_raw) (\<lambda>node_reference_value.
           Inr (build_workbook df_raw df_location pipe_data_in_final pipe_data_out_final
                  node_reference_value)))))))"

text \<open>
  Every output path ends in the letter x (of \<open>.xlsx\<close>); no path of a PDF that the batch
  reads does.
\<close>

definition ends_x :: "string \<Rightarrow> bool" where
  "ends_x q = (q \<noteq> [] \<and> last q = CHR ''x'')"

text \<open>
  The pairs (PDF path, workbook path) the two loops of \<open>run_processing_batch\<close> go
  through, in order, and the body of the loop for one pair.
\<close>

definition pdf_jobs ::
  "string \<Rightarrow> (string \<times> string list \<times> string list) list \<Rightarrow> (string \<times> string) list" where
  "pdf_jobs output_folder walk =
     concat (map (\<lambda>(root, dirs, fs).
       map (\<lambda>file. (path_join root file, path_join output_folder (stem file @ ''.xlsx'')))
         (filter (\<lambda>file. endswith (lower file) ''.pdf'') fs)) walk)"

definition run_job :: "string \<times> string \<Rightarrow> world \<times> string list \<Rightarrow> world \<times> string list" where
  "run_job j s =
     (case j of (pdf_path, output_excel_path) \<Rightarrow>
      case s of (w, failed_pdfs) \<Rightarrow>
        (let w1 = prints w [''Processing '' @ pdf_path @ '' -> '' @ output_excel_path]
         in case process_pdf w1 pdf_path output_excel_path of
              (w2, Inr _) \<Rightarrow> (w2, failed_pdfs)
            | (w2, Inl e) \<Rightarrow>
                (prints w2 [''Error processing '' @ pdf_path @ '': '' @ exn_str e],
                 failed_pdfs @ [pdf_path])))"

text \<open>
  Whether the pipeline raises for a pair in a given world, and the file it writes there.
\<close>

definition job_fails :: "world \<Rightarrow> string \<times> string \<Rightarrow> bool" where
  "job_fails b j = isl (snd (process_pdf b (fst j) (snd j)))"

definition job_writes :: "world \<Rightarrow> string \<times> string \<Rightarrow> (string \<times> node) list" where
  "job_writes b j =
     (case outcome b (fst j) of
        Some (Inr wb) \<Rightarrow> if files b (snd j) = Some Dir then [] else [(snd j, Xlsx wb)]
      | _ \<Rightarrow> [])"

text \<open>
  Storing a list of files, in order.
\<close>

definition apply_writes :: "(string \<times> node) list \<Rightarrow> (string \<Rightarrow> node option) \<Rightarrow> (string \<Rightarrow> node option)" where
  "apply_writes ws m = fold (\<lambda>(k, v) m. m(k \<mapsto> v)) ws m"

text \<open>
  Two file maps agree when they hold the same at every path that is not an output path,
  and have the same directories.
\<close>

definition agree :: "(string \<Rightarrow> node option) \<Rightarrow> (string \<Rightarrow> node option) \<Rightarrow> bool" where
  "agree m m' = ((\<forall>q. \<not> ends_x q \<longrightarrow> m q = m' q) \<and> (\<forall>q. m q = Some Dir \<longleftrightarrow> m' q = Some Dir))"

text \<open>
  The grid has a non-empty cell at row 9, column 3.
\<close>

definition node_cell_present :: "dataframe \<Rightarrow> bool" where
  "node_cell_present df = (8 < shape0 df \<and> 2 < shape1 df \<and> cell df 8 2 \<noteq> [])"

text \<open>
  An example: a folder \<open>in\<close> with a PDF of one line (no node reference cell), a PDF
  without text, a text file, and in a subfolder a PDF of nine lines whose ninth line holds
  the node reference MH7; then the same with a regular file at the output path; then the
  world after one batch, listing also the workbooks it wrote.
\<close>

definition nine_lines :: string where
  "nine_lines =
     ''X Y MH7\<newline>X Y MH7\<newline>X Y MH7\<newline>'' @
     ''X Y MH7\<newline>X Y MH7\<newline>X Y MH7\<newline>'' @
     ''X Y MH7\<newline>X Y MH7\<newline>X Y MH7\<newline>''"

definition example_world :: world where
  "example_world =
     \<lparr>files = [''in/a.pdf'' \<mapsto> Pdf [Text ''NODE REFERENCE MH12''],
               ''in/e.pdf'' \<mapsto> Pdf [Text []],
               ''in/sub/g.PDF'' \<mapsto> Pdf [Text nine_lines]],
      stdout = [],
      os_walk = (\<lambda>d. if d = ''in''
                     then [(''in'', [''sub''], [''a.pdf'', ''e.pdf'', ''notes.txt'']),
                           (''in/sub'', [], [''g.PDF''])]
                     else [])\<rparr>"


definition second_world :: world where
  "second_world =
     (fst (run_processing_batch example_world ''in'' ''out''))
       \<lparr>stdout := [],
        os_walk := (\<lambda>d. if d = ''in''
                       then [(''in'', [''out'', ''sub''],
                              [''a.pdf'', ''e.pdf'', ''notes.txt'', ''g.xlsx'']),
                             (''in/out'', [], [''g.xlsx'']),
                             (''in/sub'', [], [''g.PDF''])]
                       else [])\<rparr>"

section \<open>Frames as objects\<close>

text \<open>
  Frames as Python objects: a store of frames by address, \<open>top\<close> the next free address.
  A function that receives a frame receives its address.
\<close>

record heap =
  objs :: "nat \<Rightarrow> dataframe"
  top :: nat

text \<open>Every expression that builds a frame allocates a new object.\<close>

definition new_frame :: "dataframe \<Rightarrow> heap \<Rightarrow> heap \<times> nat" where
  "new_frame df h = (h\<lparr>objs := (objs h)(top h := df), top := Suc (top h)\<rparr>, top h)"

text \<open>\<open>df[name] = values\<close> changes the object that \<open>df\<close> refers to, in place.\<close>

definition setitem_at :: "heap \<Rightarrow> nat \<Rightarrow> string \<Rightarrow> series \<Rightarrow> heap" where
  "setitem_at h a name s = h\<lparr>objs := (objs h)(a := setitem (objs h a) name s)\<rparr>"

definition assign_at :: "heap \<Rightarrow> nat \<Rightarrow> string \<Rightarrow> series result \<Rightarrow> heap result" where
  "assign_at h a name rhs = bind rhs (\<lambda>s. Inr (setitem_at h a name s))"

text \<open>
  \<open>df.iloc[r0:r1, c0:c1]\<close> and \<open>reset_index(drop=True)\<close> read a frame and give the value of
  a new one; the rows of a frame are already numbered from 0 in this model.
\<close>

definition iloc_slice :: "dataframe \<Rightarrow> nat \<Rightarrow> nat \<Rightarrow> nat \<Rightarrow> nat \<Rightarrow> dataframe" where
  "iloc_slice df r0 r1 c0 c1 = iloc_block df r0 r1 c0 c1"

definition reset_index :: "dataframe \<Rightarrow> dataframe" where
  "reset_index df = df"

text \<open>
  The three field extractors, statement by statement, on the store: they return the new
  store, the printed lines and the address of the returned table.
\<close>

definition extract_incoming_pipes_obj :: "heap \<Rightarrow> nat \<Rightarrow> (heap \<times> string list \<times> nat) result" where
  "extract_incoming_pipes_obj h df_raw =
     (if empty_df (objs h df_raw) \<or> shape0 (objs h df_raw) < 70 \<or> shape1 (objs h df_raw) < 11
      then (case new_frame (DataFrame_columns incoming_schema) h of
              (h1, r) \<Rightarrow> Inr (h1, [incoming_warning], r))
      else
        (case new_frame (iloc_slice (objs h df_raw) 63 70 0 11) h of (h1, sl) \<Rightarrow>
         case new_frame (reset_index (objs h1 sl)) h1 of (h2, pipe_data_in) \<Rightarrow>
         case new_frame DataFrame_new h2 of (h3, pipe_data_in_final) \<Rightarrow>
         bind (assign_at h3 pipe_data_in_final ''ID'' (iloc_col (objs h3 pipe_data_in) 0)) (\<lambda>h4.
         bind (assign_at h4 pipe_data_in_final ''UPSTREAM REFERENCE''
                 (iloc_col (objs h4 pipe_data_in) 1)) (\<lambda>h5.
         bind (assign_at h5 pipe_data_in_final ''PIPE SHAPE''
                 (iloc_col (objs h5 pipe_data_in) 2)) (\<lambda>h6.
         bind (iloc_col (objs h6 pipe_data_in) 3) (\<lambda>a.
         bind (iloc_col (objs h6 pipe_data_in) 4) (\<lambda>b.
         bind (iloc_col (objs h6 pipe_data_in) 5) (\<lambda>c.
         bind (assign_at h6 pipe_data_in_final ''PIPE SIZE (mm)'' (Inr (pipe_size a b c))) (\<lambda>h7.
         bind (assign_at h7 pipe_data_in_final ''BACKDROP DIAM (mm)''
                 (iloc_col (objs h7 pipe_data_in) 6)) (\<lambda>h8.
         bind (assign_at h8 pipe_data_in_final ''PIPE MATERIAL''
                 (iloc_col (objs h8 pipe_data_in) 7)) (\<lambda>h9.
         bind (assign_at h9 pipe_data_in_final ''LINING''
                 (iloc_col (objs h9 pipe_data_in) 8)) (\<lambda>h10.
         bind (assign_at h10 pipe_data_in_final ''DEPTH FROM COVER (m)''
                 (iloc_col (objs h10 pipe_data_in) 9)) (\<lambda>h11.
         bind (assign_at h11 pipe_data_in_final ''INVERT LEVEL (m AD)''
                 (iloc_col (objs h11 pipe_data_in) 10)) (\<lambda>h12.
         Inr (h12, [], pipe_data_in_final)))))))))))))))"

definition extract_outgoing_pipes_obj :: "heap \<Rightarrow> nat \<Rightarrow> (heap \<times> string list \<times> nat) result" where
  "extract_outgoing_pipes_obj h df_raw =
     (if empty_df (objs h df_raw) \<or> shape0 (objs h df_raw) < 85 \<or> shape1 (objs h df_raw) < 12
      then (case new_frame (DataFrame_columns outgoing_schema) h of
              (h1, r) \<Rightarrow> Inr (h1, [outgoing_warning], r))
      else
        (case new_frame (iloc_slice (objs h df_raw) 83 85 0 12) h of (h1, sl) \<Rightarrow>
         case new_frame (reset_index (objs h1 sl)) h1 of (h2, pipe_data_out) \<Rightarrow>
         case new_frame DataFrame_new h2 of (h3, pipe_data_out_final) \<Rightarrow>
         bind (assign_at h3 pipe_data_out_final ''ID'' (iloc_col (objs h3 pipe_data_out) 0)) (\<lambda>h4.
         bind (assign_at h4 pipe_data_out_final ''UPSTREAM REFERENCE''
                 (iloc_col (objs h4 pipe_data_out) 1)) (\<lambda>h5.
         bind (assign_at h5 pipe_data_out_final ''PIPE SHAPE''
                 (iloc_col (objs h5 pipe_data_out) 2)) (\<lambda>h6.
         bind (iloc_col (objs h6 pipe_data_out) 3) (\<lambda>a.
         bind (iloc_col (objs h6 pipe_data_out) 4) (\<lambda>b.
         bind (iloc_col (objs h6 pipe_data_out) 5) (\<lambda>c.
         bind (assign_at h6 pipe_data_out_final ''PIPE SIZE (mm)'' (Inr (pipe_size a b c))) (\<lambda>h7.
         bind (assign_at h7 pipe_data_out_final ''COND''
                 (iloc_col (objs h7 pipe_data_out) 6)) (\<lambda>h8.
         bind (assign_at h8 pipe_data_out_final ''CRITY''
                 (iloc_col (objs h8 pipe_data_out) 7)) (\<lambda>h9.
         bind (assign_at h9 pipe_data_out_final ''PIPE MATERIAL''
                 (iloc_col (objs h9 pipe_data_out) 8)) (\<lambda>h10.
         bind (assign_at h10 pipe_data_out_final ''LINING''
                 (iloc_col (objs h10 pipe_data_out) 9)) (\<lambda>h11.
         bind (assign_at h11 pipe_data_out_final ''DEPTH FROM COVER (m)''
                 (iloc_col (objs h11 pipe_data_out) 10)) (\<lambda>h12.
         bind (assign_at h12 pipe_data_out_final ''INVERT LEVEL (m AD)''
                 (iloc_col (objs h12 pipe_data_out) 11)) (\<lambda>h13.
         Inr (h13, [], pipe_data_out_final))))))))))))))))"

text \<open>
  \<open>extract_location_data\<close> only reads its argument (\<open>shape\<close>, \<open>iloc\<close>) and builds its table
  with one constructor call from a dictionary of two lists.
\<close>

definition extract_location_data_obj :: "heap \<Rightarrow> nat \<Rightarrow> (heap \<times> string list \<times> nat) result" where
  "extract_location_data_obj h df_raw =
     bind (extract_location_data (objs h df_raw)) (\<lambda>(out, location).
       case new_frame location h of (h1, r) \<Rightarrow> Inr (h1, out, r))"

text \<open>
  No object that existed before the call has changed; and the result of a call: it
  returns, the old objects are unchanged, the returned address is a new one, and the table
  there is the one the extractor computes.
\<close>

definition untouched :: "heap \<Rightarrow> heap \<Rightarrow> bool" where
  "untouched h h' = (top h \<le> top h' \<and> (\<forall>b<top h. objs h' b = objs h b))"

definition fresh_result ::
  "heap \<Rightarrow> (string list \<times> dataframe) result \<Rightarrow> (heap \<times> string list \<times> nat) result \<Rightarrow> bool" where
  "fresh_result h pure res =
     (case res of
        Inl e \<Rightarrow> False
      | Inr (h', out, r) \<Rightarrow>
          untouched h h' \<and> top h \<le> r \<and> r < top h' \<and> pure = Inr (out, objs h' r))"

text \<open>A store holding one grid of 85 rows and 12 columns at address 0.\<close>

definition grid_heap :: heap where
  "grid_heap = \<lparr>objs = (\<lambda>b. pipe_grid ''300'' ''x'' ''450''), top = 1\<rparr>"


section \<open>Properties of the field extractors\<close>

lemma bind_simps [simp]: "bind (Inr x) f = f x" "bind (Inl e) f = Inl e"
  by (simp_all add: bind_def)

lemma assign_Inr [simp]: "assign df name (Inr s) = Inr (setitem df name s)"
  by (simp add: assign_def)

lemma iloc_col_block:
  "r0 \<le> r1 \<Longrightarrow> r1 \<le> shape0 df \<Longrightarrow> c1 \<le> shape1 df \<Longrightarrow> c < c1 \<Longrightarrow>
     iloc_col (iloc_block df r0 r1 0 c1) c = Inr (map (\<lambda>r. cell df (r0 + r) c) [0..<r1 - r0])"
  by (simp add: iloc_col_def iloc_block_def shape0_def shape1_def min_def)

lemma find_col_less: "find_col cs name < length cs \<longleftrightarrow> name \<in> set cs"
  by (induction cs) (auto simp: find_col_def)

lemma columns_setitem:
  "columns (setitem df name s) =
     (if name \<in> set (columns df) then columns df else columns df @ [name])"
  by (simp add: setitem_def Let_def find_col_less)

lemma get_val_eq: "get_val df r c = Inr (cell_text df r c)"
  by (simp add: get_val_def cell_text_def iloc_def)

lemma join_row_range_eq: "join_row_range df r c0 c1 = Inr (row_text df r c0 c1)"
  by (simp add: join_row_range_def row_text_def iloc_row_def)

lemma extract_location_data_eq:
  "extract_location_data df =
     Inr ([], DataFrame_dict2 ''COMPONENTS'' location_components ''VALUE'' (location_values df))"
  by (simp add: extract_location_data_def get_val_eq join_row_range_eq location_values_def
      split: prod.split)

lemma incoming_small:
  "empty_df df \<or> shape0 df < 70 \<or> shape1 df < 11 \<Longrightarrow>
     extract_incoming_pipes df = Inr ([incoming_warning], DataFrame_columns incoming_schema)"
  by (simp add: extract_incoming_pipes_def)

lemma outgoing_small:
  "empty_df df \<or> shape0 df < 85 \<or> shape1 df < 12 \<Longrightarrow>
     extract_outgoing_pipes df = Inr ([outgoing_warning], DataFrame_columns outgoing_schema)"
  by (simp add: extract_outgoing_pipes_def)

lemma incoming_large:
  assumes "\<not> (empty_df df \<or> shape0 df < 70 \<or> shape1 df < 11)"
  shows "\<exists>t. extract_incoming_pipes df = Inr ([], t) \<and> columns t = incoming_schema"
  using assms
  by (simp add: extract_incoming_pipes_def Let_def iloc_col_block columns_setitem
      DataFrame_new_def DataFrame_columns_def incoming_schema_def)

lemma outgoing_large:
  assumes "\<not> (empty_df df \<or> shape0 df < 85 \<or> shape1 df < 12)"
  shows "\<exists>t. extract_outgoing_pipes df = Inr ([], t) \<and> columns t = outgoing_schema"
  using assms
  by (simp add: extract_outgoing_pipes_def Let_def iloc_col_block columns_setitem
      DataFrame_new_def DataFrame_columns_def outgoing_schema_def)

lemma len_components: "length location_components = 29"
  by (simp add: location_components_def)

lemma len_values: "length (location_values df) = 29"
  by (simp add: location_values_def)

lemma find_col_notin: "name \<notin> set cs \<Longrightarrow> find_col cs name = length cs"
  by (induction cs) (auto simp: find_col_def)

lemma table_of_snoc: "table_of (cols @ [(n, s)]) = setitem (table_of cols) n s"
  by (simp add: table_of_def)

lemma columns_table_of: "distinct (map fst cols) \<Longrightarrow> columns (table_of cols) = map fst cols"
proof (induction cols rule: rev_induct)
  case Nil
  then show ?case by (simp add: table_of_def DataFrame_new_def DataFrame_columns_def)
next
  case (snoc x xs)
  obtain n s where x: "x = (n, s)" by (cases x)
  from snoc have "columns (table_of xs) = map fst xs" and "n \<notin> set (map fst xs)"
    by (auto simp: x)
  then show ?case
    by (simp add: x table_of_snoc columns_setitem)
qed

lemma index_len_table_of:
  "distinct (map fst cols) \<Longrightarrow> cols \<noteq> [] \<Longrightarrow> index_len (table_of cols) = length (snd (hd cols))"
proof (induction cols rule: rev_induct)
  case Nil
  then show ?case by simp
next
  case (snoc x xs)
  obtain n s where x: "x = (n, s)" by (cases x)
  from snoc.prems have d: "distinct (map fst xs)" by simp
  show ?case
  proof (cases "xs = []")
    case True
    then show ?thesis
      by (simp add: x table_of_snoc setitem_def Let_def table_of_def DataFrame_new_def
          DataFrame_columns_def)
  next
    case False
    with d snoc.IH have "index_len (table_of xs) = length (snd (hd xs))" by simp
    moreover from False d have "columns (table_of xs) \<noteq> []" by (simp add: columns_table_of)
    ultimately show ?thesis using False
      by (simp add: x table_of_snoc setitem_def Let_def)
  qed
qed

lemma cell_table_of:
  "distinct (map fst cols) \<Longrightarrow> k < length cols \<Longrightarrow> r < length (snd (cols ! k)) \<Longrightarrow>
     cell (table_of cols) r k = snd (cols ! k) ! r"
proof (induction cols rule: rev_induct)
  case Nil
  then show ?case by simp
next
  case (snoc x xs)
  obtain n s where x: "x = (n, s)" by (cases x)
  from snoc.prems have d: "distinct (map fst xs)" and nin: "n \<notin> set (map fst xs)"
    by (auto simp: x)
  have fc: "find_col (columns (table_of xs)) n = length xs"
    using d nin by (simp add: columns_table_of find_col_notin)
  show ?case
  proof (cases "k = length xs")
    case True
    with snoc.prems show ?thesis
      by (simp add: x table_of_snoc setitem_def Let_def fc)
  next
    case False
    with snoc.prems have k: "k < length xs" by simp
    with snoc.prems have "r < length (snd (xs ! k))" by (simp add: nth_append)
    with snoc.IH d k have "cell (table_of xs) r k = snd (xs ! k) ! r" by simp
    with False k show ?thesis
      by (simp add: x table_of_snoc setitem_def Let_def fc nth_append)
  qed
qed

lemma iloc_col_block':
  "r0 \<le> r1 \<Longrightarrow> r1 \<le> shape0 df \<Longrightarrow> c1 \<le> shape1 df \<Longrightarrow> c < c1 \<Longrightarrow>
     iloc_col (iloc_block df r0 r1 0 c1) c = Inr (block_col df r0 (r1 - r0) c)"
  by (simp add: iloc_col_block block_col_def)

lemma length_block_col [simp]: "length (block_col df r0 n c) = n"
  by (simp add: block_col_def)

lemma nth_block_col [simp]: "r < n \<Longrightarrow> block_col df r0 n c ! r = cell df (r0 + r) c"
  by (simp add: block_col_def)

lemma incoming_table:
  assumes "\<not> (empty_df df \<or> shape0 df < 70 \<or> shape1 df < 11)"
  shows "extract_incoming_pipes df = Inr ([], table_of
    [(''ID'', block_col df 63 7 0), (''UPSTREAM REFERENCE'', block_col df 63 7 1),
     (''PIPE SHAPE'', block_col df 63 7 2),
     (''PIPE SIZE (mm)'',
        pipe_size (block_col df 63 7 3) (block_col df 63 7 4) (block_col df 63 7 5)),
     (''BACKDROP DIAM (mm)'', block_col df 63 7 6), (''PIPE MATERIAL'', block_col df 63 7 7),
     (''LINING'', block_col df 63 7 8), (''DEPTH FROM COVER (m)'', block_col df 63 7 9),
     (''INVERT LEVEL (m AD)'', block_col df 63 7 10)])"
  using assms
  by (simp add: extract_incoming_pipes_def Let_def iloc_col_block' table_of_def)

lemma outgoing_table:
  assumes "\<not> (empty_df df \<or> shape0 df < 85 \<or> shape1 df < 12)"
  shows "extract_outgoing_pipes df = Inr ([], table_of
    [(''ID'', block_col df 83 2 0), (''UPSTREAM REFERENCE'', block_col df 83 2 1),
     (''PIPE SHAPE'', block_col df 83 2 2),
     (''PIPE SIZE (mm)'',
        pipe_size (block_col df 83 2 3) (block_col df 83 2 4) (block_col df 83 2 5)),
     (''COND'', block_col df 83 2 6), (''CRITY'', block_col df 83 2 7),
     (''PIPE MATERIAL'', block_col df 83 2 8),
     (''LINING'', block_col df 83 2 9), (''DEPTH FROM COVER (m)'', block_col df 83 2 10),
     (''INVERT LEVEL (m AD)'', block_col df 83 2 11)])"
  using assms
  by (simp add: extract_outgoing_pipes_def Let_def iloc_col_block' table_of_def)

lemma pipe_size_nth:
  "r < length a \<Longrightarrow> length b = length a \<Longrightarrow> length c = length a \<Longrightarrow>
     pipe_size a b c ! r = pipe_size_cell (a ! r) (b ! r) (c ! r)"
  by (simp add: pipe_size_def pipe_size_cell_def str_strip_def add_str_def add_series_def)

lemma length_pipe_size:
  "length b = length a \<Longrightarrow> length c = length a \<Longrightarrow> length (pipe_size a b c) = length a"
  by (simp add: pipe_size_def str_strip_def add_str_def add_series_def)

lemma iloc_table_of:
  "distinct (map fst cols) \<Longrightarrow> k < length cols \<Longrightarrow> r < length (snd (hd cols)) \<Longrightarrow>
   r < length (snd (cols ! k)) \<Longrightarrow>
     iloc (table_of cols) r k = Inr (snd (cols ! k) ! r)"
  by (cases "cols = []")
     (simp_all add: iloc_def shape0_def shape1_def index_len_table_of columns_table_of
        cell_table_of)

lemma incoming_pipe_size:
  assumes "\<not> (empty_df df \<or> shape0 df < 70 \<or> shape1 df < 11)" and "r < 7"
  shows "value_at (extract_incoming_pipes df) r 3 =
           Inr (pipe_size_cell (cell df (63 + r) 3) (cell df (63 + r) 4) (cell df (63 + r) 5))"
  using assms
  by (simp add: incoming_table value_at_def iloc_table_of pipe_size_nth length_pipe_size)

lemma outgoing_pipe_size:
  assumes "\<not> (empty_df df \<or> shape0 df < 85 \<or> shape1 df < 12)" and "r < 2"
  shows "value_at (extract_outgoing_pipes df) r 3 =
           Inr (pipe_size_cell (cell df (83 + r) 3) (cell df (83 + r) 4) (cell df (83 + r) 5))"
  using assms
  by (simp add: outgoing_table value_at_def iloc_table_of pipe_size_nth length_pipe_size)

lemma split_on_nonempty: "split_on c s \<noteq> []"
  by (induction s) (auto simp: Let_def)

lemma hd_split_on: "hd (split_on c s) = takeWhile (\<lambda>x. x \<noteq> c) s"
  by (induction s) (auto simp: Let_def)

lemma tl_split_on:
  "c \<in> set s \<Longrightarrow> tl (split_on c s) = split_on c (drop 1 (dropWhile (\<lambda>x. x \<noteq> c) s))"
  by (induction s) (auto simp: Let_def)

lemma split_on_second:
  assumes "c \<in> set s"
  shows "length (split_on c s) \<ge> 2 \<and>
         split_on c s ! 1 = takeWhile (\<lambda>x. x \<noteq> c) (drop 1 (dropWhile (\<lambda>x. x \<noteq> c) s))"
proof -
  let ?rest = "drop 1 (dropWhile (\<lambda>x. x \<noteq> c) s)"
  have ne: "split_on c s \<noteq> []" by (rule split_on_nonempty)
  have tl: "tl (split_on c s) = split_on c ?rest" using assms by (rule tl_split_on)
  have ne2: "split_on c ?rest \<noteq> []" by (rule split_on_nonempty)
  from ne obtain p ps where ps: "split_on c s = p # ps" by (cases "split_on c s") auto
  with tl have ps2: "ps = split_on c ?rest" by simp
  obtain q qs where qs: "split_on c ?rest = q # qs"
    using ne2 by (cases "split_on c ?rest") auto
  have "q = hd (split_on c ?rest)" using qs by simp
  then have "q = takeWhile (\<lambda>x. x \<noteq> c) ?rest" by (simp add: hd_split_on)
  moreover from ps ps2 qs have "split_on c s = p # q # qs" by simp
  ultimately show ?thesis by simp
qed

lemma coordinates_eq:
  "coordinates t =
     (if CHR '','' \<in> set t
      then (strip (before_comma t), strip (before_comma (after_comma t)))
      else ([], []))"
proof (cases "CHR '','' \<in> set t")
  case True
  from split_on_second[OF True] have
    len: "length (split_on CHR '','' t) \<ge> 2" and
    snd: "split_on CHR '','' t ! 1 = before_comma (after_comma t)"
    by (simp_all add: before_comma_def after_comma_def)
  have "split_on CHR '','' t ! 0 = before_comma t"
    using split_on_nonempty[of "CHR '',''" t] hd_split_on[of "CHR '',''" t]
    by (simp add: hd_conv_nth before_comma_def)
  with True len snd show ?thesis
    by (simp add: coordinates_def Let_def)
next
  case False
  then show ?thesis by (simp add: coordinates_def)
qed

lemma iloc_dict2:
  "r < length v1 \<Longrightarrow> length v2 = length v1 \<Longrightarrow>
     iloc (DataFrame_dict2 k1 v1 k2 v2) r (Suc 0) = Inr (v2 ! r)"
  by (simp add: iloc_def DataFrame_dict2_def shape0_def shape1_def)

lemma location_value_at:
  "r < 29 \<Longrightarrow> value_at (extract_location_data df) r (Suc 0) = Inr (location_values df ! r)"
  by (simp add: value_at_def extract_location_data_eq iloc_dict2 len_components len_values)

lemma cell_text_out: "\<not> in_bounds df (r, c) \<Longrightarrow> cell_text df r c = []"
  by (auto simp: in_bounds_def cell_text_def)

lemma row_text_out: "\<not> in_bounds df (r, c0) \<Longrightarrow> row_text df r c0 c1 = []"
  by (auto simp: in_bounds_def row_text_def split: option.splits)

lemma coordinates_Nil: "coordinates [] = ([], [])"
  by (simp add: coordinates_def)

lemma strip_space: "strip '' '' = []"
  by (simp add: strip_def isspace_def)

lemma notes_out:
  "\<not> in_bounds df (95, 0) \<Longrightarrow> strip (cell_text df 95 0 @ '' '' @ row_text df 96 0 None) = []"
proof -
  assume a: "\<not> in_bounds df (95, 0)"
  then have "\<not> in_bounds df (96, 0)" by (auto simp: in_bounds_def)
  with a show ?thesis by (simp add: cell_text_out row_text_out strip_space)
qed

lemma location_values_out:
  "list_all2 (\<lambda>p v. in_bounds df p \<or> v = []) location_positions (location_values df)"
proof -
  have c: "\<And>r c. in_bounds df (r, c) \<or> cell_text df r c = []"
    using cell_text_out by blast
  have r: "\<And>r c e. in_bounds df (r, c) \<or> row_text df r c e = []"
    using row_text_out by blast
  have x: "in_bounds df (9, 2) \<or> fst (coordinates (cell_text df 9 2)) = []"
    by (cases "in_bounds df (9, 2)") (simp_all add: cell_text_out coordinates_Nil)
  have y: "in_bounds df (9, 2) \<or> snd (coordinates (cell_text df 9 2)) = []"
    by (cases "in_bounds df (9, 2)") (simp_all add: cell_text_out coordinates_Nil)
  have n: "in_bounds df (95, 0) \<or>
           strip (cell_text df 95 0 @ '' '' @ row_text df 96 0 None) = []"
    using notes_out by blast
  show ?thesis
    unfolding location_positions_def location_values_def
    using n by (simp add: c r x y)
qed

lemma column_values_dict2_0: "column_values (DataFrame_dict2 k1 v1 k2 v2) 0 = v1"
  by (rule nth_equalityI) (simp_all add: column_values_def DataFrame_dict2_def)

lemma column_values_dict2_1:
  "length v2 = length v1 \<Longrightarrow> column_values (DataFrame_dict2 k1 v1 k2 v2) (Suc 0) = v2"
  by (rule nth_equalityI) (simp_all add: column_values_def DataFrame_dict2_def)

lemma isspace_space [simp]: "isspace CHR '' ''"
  by (simp add: isspace_def)

lemma strip_Nil [simp]: "strip [] = []"
  by (simp add: strip_def)

lemma strip_Cons_space: "isspace c \<Longrightarrow> strip (c # s) = strip s"
  by (simp add: strip_def)

lemma strip_snoc_space: "isspace c \<Longrightarrow> strip (s @ [c]) = strip s"
proof (cases "\<forall>x\<in>set s. isspace x")
  case True
  assume c: "isspace c"
  from True have "dropWhile isspace s = []" by simp
  moreover from True c have "dropWhile isspace (s @ [c]) = []" by simp
  ultimately show ?thesis by (simp only: strip_def rev.simps dropWhile.simps)
next
  case False
  assume c: "isspace c"
  from False have "dropWhile isspace (s @ [c]) = dropWhile isspace s @ [c]"
    by (auto simp: dropWhile_append1)
  with c show ?thesis by (simp add: strip_def)
qed

lemma strip_id: "s \<noteq> [] \<Longrightarrow> \<not> isspace (hd s) \<Longrightarrow> \<not> isspace (last s) \<Longrightarrow> strip s = s"
proof -
  assume s: "s \<noteq> []" and h: "\<not> isspace (hd s)" and l: "\<not> isspace (last s)"
  from s h have d: "dropWhile isspace s = s" by (cases s) auto
  from s l have "dropWhile isspace (rev s) = rev s"
    by (cases "rev s") (auto simp: last_rev hd_rev[symmetric] simp del: rev_is_Nil_conv)
  with d show ?thesis by (simp add: strip_def)
qed

lemma last_dropWhile: "dropWhile P xs \<noteq> [] \<Longrightarrow> last (dropWhile P xs) = last xs"
  by (induction xs) (auto split: if_splits)

lemma trimmed_strip: "trimmed (strip s)"
proof (cases "strip s = []")
  case True
  then show ?thesis by (simp add: trimmed_def)
next
  case False
  let ?d = "dropWhile isspace s"
  let ?e = "dropWhile isspace (rev ?d)"
  from False have e: "?e \<noteq> []" by (simp add: strip_def)
  have d: "?d \<noteq> []"
  proof
    assume "?d = []"
    then have "?e = []" by (simp only: rev.simps dropWhile.simps)
    with e show False by blast
  qed
  from e have "\<not> isspace (hd ?e)" by (rule hd_dropWhile)
  then have l: "\<not> isspace (last (strip s))" using e by (simp add: strip_def last_rev)
  from e have "last ?e = last (rev ?d)" by (rule last_dropWhile)
  also have "\<dots> = hd ?d" using d by (simp add: last_rev)
  finally have "last ?e = hd ?d" .
  moreover from d have "\<not> isspace (hd ?d)" by (rule hd_dropWhile)
  ultimately have "\<not> isspace (hd (strip s))" using e by (simp add: strip_def hd_rev)
  with l show ?thesis by (simp add: trimmed_def)
qed

lemma strip_trimmed: "trimmed x \<Longrightarrow> strip x = x"
  by (cases "x = []") (simp_all add: trimmed_def strip_id)

lemma strip_pad:
  "strip (CHR '' '' # s) = strip s" "strip (s @ '' '') = strip s"
  by (simp_all add: strip_Cons_space strip_snoc_space)

lemma trimmed_join2:
  "trimmed a \<Longrightarrow> trimmed b \<Longrightarrow> a \<noteq> [] \<Longrightarrow> b \<noteq> [] \<Longrightarrow> trimmed (a @ m @ b)"
  by (simp add: trimmed_def)

lemma pipe_size_trimmed:
  assumes "trimmed a" "trimmed b" "trimmed c" "\<not> (b = [] \<and> a \<noteq> [] \<and> c \<noteq> [])"
  shows "strip (a @ '' '' @ b @ '' '' @ c) = join '' '' (filter (\<lambda>x. x \<noteq> []) [a, b, c])"
proof -
  consider (abc) "a \<noteq> []" "b \<noteq> []" "c \<noteq> []" | (ab) "a \<noteq> []" "b \<noteq> []" "c = []"
    | (a) "a \<noteq> []" "b = []" "c = []" | (bc) "a = []" "b \<noteq> []" "c \<noteq> []"
    | (b) "a = []" "b \<noteq> []" "c = []" | (c) "a = []" "b = []" "c \<noteq> []"
    | (none) "a = []" "b = []" "c = []"
    using assms(4) by blast
  then show ?thesis
  proof cases
    case abc
    with assms have "trimmed (a @ '' '' @ (b @ '' '' @ c))"
      by (intro trimmed_join2) simp_all
    with abc show ?thesis by (simp add: strip_trimmed)
  next
    case ab
    with assms have t: "trimmed (a @ '' '' @ b)" by (intro trimmed_join2) simp_all
    have "strip (a @ '' '' @ b @ '' '' @ c) = strip ((a @ '' '' @ b) @ '' '')"
      using ab by simp
    also have "\<dots> = strip (a @ '' '' @ b)" by (rule strip_pad)
    finally show ?thesis using ab t by (simp add: strip_trimmed)
  next
    case a
    have "strip (a @ '' '' @ b @ '' '' @ c) = strip ((a @ '' '') @ '' '')"
      using a by simp
    also have "\<dots> = strip a" by (simp only: strip_pad)
    finally show ?thesis using a assms by (simp add: strip_trimmed)
  next
    case bc
    with assms have t: "trimmed (b @ '' '' @ c)" by (intro trimmed_join2) simp_all
    have "strip (a @ '' '' @ b @ '' '' @ c) = strip (CHR '' '' # (b @ '' '' @ c))"
      using bc by simp
    also have "\<dots> = strip (b @ '' '' @ c)" by (rule strip_pad)
    finally show ?thesis using bc t by (simp add: strip_trimmed)
  next
    case b
    have "strip (a @ '' '' @ b @ '' '' @ c) = strip (CHR '' '' # (b @ '' ''))"
      using b by simp
    also have "\<dots> = strip b" by (simp only: strip_pad)
    finally show ?thesis using b assms by (simp add: strip_trimmed)
  next
    case c
    have "strip (a @ '' '' @ b @ '' '' @ c) = strip (CHR '' '' # CHR '' '' # c)"
      using c by simp
    also have "\<dots> = strip c" by (simp only: strip_pad)
    finally show ?thesis using c assms by (simp add: strip_trimmed)
  next
    case none
    then show ?thesis by (simp add: strip_pad)
  qed
qed

lemma pipe_size_cell_spec:
  "\<not> (strip b = [] \<and> strip a \<noteq> [] \<and> strip c \<noteq> []) \<Longrightarrow>
     pipe_size_cell a b c = spec_pipe_size a b c"
  unfolding pipe_size_cell_def spec_pipe_size_def
  by (rule pipe_size_trimmed) (simp_all add: trimmed_strip)

lemma pipe_size_cell_gap:
  assumes "strip b = []" "strip a \<noteq> []" "strip c \<noteq> []"
  shows "pipe_size_cell a b c = strip a @ ''  '' @ strip c"
proof -
  from assms trimmed_strip[of a] trimmed_strip[of c]
  have "trimmed (strip a @ ''  '' @ strip c)" by (intro trimmed_join2) simp_all
  with assms show ?thesis by (simp add: pipe_size_cell_def strip_trimmed)
qed

lemma pipe_size_trimmed_result: "trimmed (pipe_size_cell a b c)"
  by (simp add: pipe_size_cell_def trimmed_strip)

lemma pipe_grid_shape:
  "\<not> (empty_df (pipe_grid a b c) \<or> shape0 (pipe_grid a b c) < 85 \<or>
      shape1 (pipe_grid a b c) < 12)"
  "\<not> (empty_df (pipe_grid a b c) \<or> shape0 (pipe_grid a b c) < 70 \<or>
      shape1 (pipe_grid a b c) < 11)"
  by (simp_all add: pipe_grid_def DataFrame_rows_def empty_df_def shape0_def shape1_def)

lemma pipe_grid_cells:
  "cell (pipe_grid a b c) 63 3 = a" "cell (pipe_grid a b c) 63 4 = b"
  "cell (pipe_grid a b c) 63 5 = c"
  "cell (pipe_grid a b c) 83 3 = a" "cell (pipe_grid a b c) 83 4 = b"
  "cell (pipe_grid a b c) 83 5 = c"
  by (simp_all add: pipe_grid_def DataFrame_rows_def nth_append)

lemma pipe_grid_value:
  "value_at (extract_incoming_pipes (pipe_grid a b c)) 0 3 = Inr (pipe_size_cell a b c)"
  "value_at (extract_outgoing_pipes (pipe_grid a b c)) 0 3 = Inr (pipe_size_cell a b c)"
  using incoming_pipe_size[OF pipe_grid_shape(2), of 0 a b c]
        outgoing_pipe_size[OF pipe_grid_shape(1), of 0 a b c]
  by (simp_all add: pipe_grid_cells)

lemma pipe_size_examples:
  "value_at (extract_incoming_pipes (pipe_grid ''300'' ''x'' ''450'')) 0 3 = Inr ''300 x 450''"
  "value_at (extract_outgoing_pipes (pipe_grid ''300'' ''x'' ''450'')) 0 3 = Inr ''300 x 450''"
  "value_at (extract_incoming_pipes (pipe_grid '''' ''mm'' '''')) 0 3 = Inr ''mm''"
  "value_at (extract_outgoing_pipes (pipe_grid '''' ''mm'' '''')) 0 3 = Inr ''mm''"
  by (simp_all add: pipe_grid_value pipe_size_cell_def strip_def isspace_def)

lemma coord_grid_text: "cell_text (coord_grid t) 9 2 = strip t"
  by (simp add: cell_text_def coord_grid_def DataFrame_rows_def shape0_def shape1_def nth_append)

lemma location_xy:
  "value_at (extract_location_data df) (Suc 0) (Suc 0) =
     Inr (fst (coordinates (cell_text df 9 2)))"
  "value_at (extract_location_data df) 2 (Suc 0) =
     Inr (snd (coordinates (cell_text df 9 2)))"
  by (simp_all add: location_value_at location_values_def)

section \<open>The claims about the field extractors\<close>

text \<open>
  C5. For every input grid, each of the three extractors returns, without raising, a table
  whose column labels are exactly its fixed schema, in the same order.
\<close>

theorem extractors_schema_fixed:
  "(\<exists>out t. extract_incoming_pipes df = Inr (out, t) \<and> columns t = incoming_schema) \<and>
   (\<exists>out t. extract_outgoing_pipes df = Inr (out, t) \<and> columns t = outgoing_schema) \<and>
   (\<exists>out t. extract_location_data df = Inr (out, t) \<and> columns t = location_schema)"
proof (intro conjI)
  show "\<exists>out t. extract_incoming_pipes df = Inr (out, t) \<and> columns t = incoming_schema"
  proof (cases "empty_df df \<or> shape0 df < 70 \<or> shape1 df < 11")
    case True
    then show ?thesis by (simp add: incoming_small DataFrame_columns_def)
  next
    case False
    then show ?thesis using incoming_large by blast
  qed
  show "\<exists>out t. extract_outgoing_pipes df = Inr (out, t) \<and> columns t = outgoing_schema"
  proof (cases "empty_df df \<or> shape0 df < 85 \<or> shape1 df < 12")
    case True
    then show ?thesis by (simp add: outgoing_small DataFrame_columns_def)
  next
    case False
    then show ?thesis using outgoing_large by blast
  qed
  show "\<exists>out t. extract_location_data df = Inr (out, t) \<and> columns t = location_schema"
    by (simp add: extract_location_data_eq DataFrame_dict2_def location_schema_def)
qed

text \<open>
  C1, as amended. A grid that is empty, or has fewer than 70 rows or 11 columns, makes
  \<open>extract_incoming_pipes\<close> print its warning and return its schema with zero rows; a grid
  that is empty, or has fewer than 85 rows or 12 columns, makes \<open>extract_outgoing_pipes\<close> do
  the same with its own warning and schema. \<open>extract_location_data\<close> has no minimum bounds:
  for every grid it prints nothing and returns its two-column table of 29 rows. None of the
  three raises.
\<close>

theorem undersized_grid:
  "(empty_df df \<or> shape0 df < 70 \<or> shape1 df < 11 \<longrightarrow>
      (\<exists>t. extract_incoming_pipes df = Inr ([incoming_warning], t) \<and>
           columns t = incoming_schema \<and> shape0 t = 0)) \<and>
   (empty_df df \<or> shape0 df < 85 \<or> shape1 df < 12 \<longrightarrow>
      (\<exists>t. extract_outgoing_pipes df = Inr ([outgoing_warning], t) \<and>
           columns t = outgoing_schema \<and> shape0 t = 0)) \<and>
   (\<exists>t. extract_location_data df = Inr ([], t) \<and>
        columns t = location_schema \<and> shape0 t = 29)"
  by (simp add: incoming_small outgoing_small extract_location_data_eq DataFrame_columns_def
      DataFrame_dict2_def location_schema_def len_components shape0_def)

text \<open>
  The theorem at a grid of 10 rows and 3 columns: both pipe extractors warn and return zero
  rows.
\<close>

theorem undersized_grid_witness:
  "shape0 (coord_grid ''1'') < 70 \<and>
   (\<exists>t. extract_incoming_pipes (coord_grid ''1'') = Inr ([incoming_warning], t) \<and>
        columns t = incoming_schema \<and> shape0 t = 0) \<and>
   (\<exists>t. extract_outgoing_pipes (coord_grid ''1'') = Inr ([outgoing_warning], t) \<and>
        columns t = outgoing_schema \<and> shape0 t = 0)"
proof -
  have s: "shape0 (coord_grid ''1'') = 10"
    by (simp add: coord_grid_def DataFrame_rows_def shape0_def)
  from s undersized_grid[of "coord_grid ''1''"] show ?thesis by simp
qed

text \<open>
  C1 as stated fails for \<open>extract_location_data\<close>: on the empty grid, which is smaller
  than any bound, it prints no warning and returns 29 rows, not zero.
\<close>

theorem location_no_minimum_counterexample:
  "printed (extract_location_data DataFrame_new) = Inr [] \<and>
   row_count (extract_location_data DataFrame_new) = Inr 29"
  by (simp add: printed_def row_count_def extract_location_data_eq DataFrame_dict2_def
      shape0_def len_components)

text \<open>
  C2. The code at the components "300", "", "450": both pipe extractors produce
  "300  450", with two spaces between the remaining components, where the claim asks for a
  single space ("300 450").
\<close>

theorem pipe_size_double_space:
  "value_at (extract_incoming_pipes (pipe_grid ''300'' '''' ''450'')) 0 3 = Inr ''300  450'' \<and>
   value_at (extract_outgoing_pipes (pipe_grid ''300'' '''' ''450'')) 0 3 = Inr ''300  450'' \<and>
   spec_pipe_size ''300'' '''' ''450'' = ''300 450''"
  by (simp add: pipe_grid_value pipe_size_cell_def spec_pipe_size_def strip_def isspace_def)

text \<open>
  C3, as amended. In the table of \<open>extract_location_data\<close>, with \<open>t\<close> the trimmed text of
  the coordinate cell (row 10, column 3; empty when the grid lacks it): when \<open>t\<close> has a comma,
  Coordinates X is the trimmed text before the first comma and Coordinates Y is the trimmed
  text between the first comma and the next one (or the end of the text); when \<open>t\<close> has no
  comma, both are empty.
\<close>

theorem coordinates_first_two_pieces:
  "value_at (extract_location_data df) 1 1 =
     Inr (if CHR '','' \<in> set (cell_text df 9 2)
          then strip (before_comma (cell_text df 9 2)) else []) \<and>
   value_at (extract_location_data df) 2 1 =
     Inr (if CHR '','' \<in> set (cell_text df 9 2)
          then strip (before_comma (after_comma (cell_text df 9 2))) else [])"
  by (simp add: location_xy coordinates_eq)

text \<open>
  The theorem at the cells "123456, 654321" and "no-comma-text".
\<close>

theorem coordinates_first_two_pieces_witness:
  "value_at (extract_location_data (coord_grid ''123456, 654321'')) 1 1 = Inr ''123456'' \<and>
   value_at (extract_location_data (coord_grid ''123456, 654321'')) 2 1 = Inr ''654321'' \<and>
   value_at (extract_location_data (coord_grid ''no-comma-text'')) 1 1 = Inr [] \<and>
   value_at (extract_location_data (coord_grid ''no-comma-text'')) 2 1 = Inr []"
  using coordinates_first_two_pieces[of "coord_grid ''123456, 654321''"]
        coordinates_first_two_pieces[of "coord_grid ''no-comma-text''"]
  by (simp add: coord_grid_text before_comma_def after_comma_def strip_def isspace_def)

text \<open>
  C3 as stated fails on a cell with two commas: for "1,2,3" Coordinates Y is "2", while
  the half after the first comma is "2,3".
\<close>

theorem coordinates_second_comma_counterexample:
  "value_at (extract_location_data (coord_grid ''1,2,3'')) 2 1 = Inr ''2'' \<and>
   snd (spec_split_first_comma ''1,2,3'') = ''2,3''"
  by (simp add: location_xy coord_grid_text coordinates_eq spec_split_first_comma_def
      before_comma_def after_comma_def strip_def isspace_def)

text \<open>
  C10. For every grid, \<open>extract_location_data\<close> returns without raising a table of exactly
  29 rows with the columns COMPONENTS and VALUE; the COMPONENTS column is the fixed list of
  labels, and every value whose grid position is out of bounds is the empty string.
\<close>

theorem location_table_fixed:
  "\<exists>t. extract_location_data df = Inr ([], t) \<and> shape0 t = 29 \<and>
       columns t = location_schema \<and> column_values t 0 = location_components \<and>
       length (column_values t 1) = 29 \<and>
       (\<forall>k<29. \<not> in_bounds df (location_positions ! k) \<longrightarrow> column_values t 1 ! k = [])"
proof -
  let ?t = "DataFrame_dict2 ''COMPONENTS'' location_components ''VALUE'' (location_values df)"
  have v: "column_values ?t 1 = location_values df"
    by (simp add: column_values_dict2_1 len_components len_values)
  have c: "column_values ?t 0 = location_components"
    by (rule column_values_dict2_0)
  have sh: "shape0 ?t = 29" "columns ?t = location_schema"
    by (simp_all add: DataFrame_dict2_def shape0_def len_components location_schema_def)
  have out: "\<forall>k<29. \<not> in_bounds df (location_positions ! k) \<longrightarrow> location_values df ! k = []"
    using location_values_out[of df]
    by (auto simp: list_all2_conv_all_nth len_values)
  have "extract_location_data df = Inr ([], ?t)"
    by (rule extract_location_data_eq)
  with sh c v out len_values[of df] show ?thesis
    by (intro exI[of _ ?t]) simp
qed

text \<open>
  The theorem at the empty grid: 29 rows, the fixed labels, and an empty Notes value.
\<close>

theorem location_table_fixed_witness:
  "\<not> in_bounds DataFrame_new (location_positions ! 28) \<and>
   (\<exists>t. extract_location_data DataFrame_new = Inr ([], t) \<and> shape0 t = 29 \<and>
        column_values t 0 = location_components \<and> column_values t 1 ! 28 = [])"
proof -
  have nb: "\<not> in_bounds DataFrame_new (location_positions ! 28)"
    by (simp add: in_bounds_def DataFrame_new_def DataFrame_columns_def shape0_def)
  from location_table_fixed[of DataFrame_new] obtain t where
    t: "extract_location_data DataFrame_new = Inr ([], t)" "shape0 t = 29"
       "column_values t 0 = location_components"
       "\<forall>k<29. \<not> in_bounds DataFrame_new (location_positions ! k) \<longrightarrow> column_values t 1 ! k = []"
    by blast
  from t(4) nb have "column_values t 1 ! 28 = []" by simp
  with nb t show ?thesis by blast
qed

section \<open>Properties of the per-file pipeline and the batch\<close>

lemma files_prints [simp]: "files (prints w ls) = files w"
  by (simp add: prints_def)

lemma os_walk_prints [simp]: "os_walk (prints w ls) = os_walk w"
  by (simp add: prints_def)

lemma PdfReader_cong: "files w p = files w' p \<Longrightarrow> PdfReader w p = PdfReader w' p"
  by (simp add: PdfReader_def)

lemma extract_raw_data_cong:
  "files w p = files w' p \<Longrightarrow> extract_raw_data w p = extract_raw_data w' p"
  by (simp add: extract_raw_data_def PdfReader_cong[of w p w'])

lemma node_reference_cong:
  "files w p = files w' p \<Longrightarrow> node_reference w p df = node_reference w' p df"
  by (simp add: node_reference_def PdfReader_def cong: if_cong)

lemma node_reference_prints [simp]:
  "node_reference (prints w ls) p df = node_reference w p df"
  by (rule node_reference_cong) simp

lemma outcome_cong: "files w p = files w' p \<Longrightarrow> outcome w p = outcome w' p"
proof -
  assume f: "files w p = files w' p"
  then have "extract_raw_data w p = extract_raw_data w' p"
    by (rule extract_raw_data_cong)
  moreover from f have "\<And>df. node_reference w p df = node_reference w' p df"
    by (rule node_reference_cong)
  ultimately show ?thesis by (simp add: outcome_def cong: if_cong)
qed

lemma files_process_pdf:
  "files (fst (process_pdf w p x)) =
     (case outcome w p of
        Some (Inr wb) \<Rightarrow> if files w x = Some Dir then files w else (files w)(x \<mapsto> Xlsx wb)
      | _ \<Rightarrow> files w)"
  by (auto simp: process_pdf_def outcome_def save_workbook_def Let_def
      split: prod.splits sum.splits option.splits node.splits)

lemma result_process_pdf:
  "snd (process_pdf w p x) =
     (case outcome w p of
        None \<Rightarrow> Inr ()
      | Some (Inl e) \<Rightarrow> Inl e
      | Some (Inr wb) \<Rightarrow> if files w x = Some Dir then Inl IsADirectoryError else Inr ())"
  by (auto simp: process_pdf_def outcome_def save_workbook_def Let_def
      split: prod.splits sum.splits option.splits node.splits)

lemma os_walk_process_pdf: "os_walk (fst (process_pdf w p x)) = os_walk w"
  by (auto simp: process_pdf_def save_workbook_def Let_def
      split: prod.splits sum.splits option.splits node.splits)

lemma process_file_eq:
  "process_file output_folder root file s =
     (if endswith (lower file) ''.pdf''
      then run_job (path_join root file, path_join output_folder (stem file @ ''.xlsx'')) s
      else s)"
  by (simp add: process_file_def run_job_def Let_def split: prod.splits)

lemma fold_process_file:
  "fold (process_file output_folder root) fs s =
     fold run_job
       (map (\<lambda>file. (path_join root file, path_join output_folder (stem file @ ''.xlsx'')))
          (filter (\<lambda>file. endswith (lower file) ''.pdf'') fs)) s"
  by (induction fs arbitrary: s) (simp_all add: process_file_eq)

lemma fold_walk:
  "fold (\<lambda>(root, dirs, fs) s. fold (process_file output_folder root) fs s) walk s =
     fold run_job (pdf_jobs output_folder walk) s"
  by (induction walk arbitrary: s) (auto simp: pdf_jobs_def fold_process_file)

lemma endswith_last: "endswith s t \<Longrightarrow> t \<noteq> [] \<Longrightarrow> s \<noteq> [] \<and> last s = last t"
proof -
  assume e: "endswith s t" and t: "t \<noteq> []"
  then have s: "s = take (length s - length t) s @ t"
    by (metis append_take_drop_id endswith_def)
  with t have "s \<noteq> []" by auto
  moreover from s t have "last s = last t" by (metis last_appendR)
  ultimately show ?thesis by simp
qed

lemma last_lower: "s \<noteq> [] \<Longrightarrow> last (lower s) = lower_char (last s)"
  by (simp add: lower_def last_map)

lemma pdf_name_last:
  assumes "endswith (lower f) ''.pdf''"
  shows "f \<noteq> [] \<and> last f \<noteq> CHR ''x''"
proof -
  from endswith_last[OF assms] have l: "lower f \<noteq> []" "last (lower f) = CHR ''f''" by simp_all
  then have f: "f \<noteq> []" by (auto simp: lower_def)
  with l have "lower_char (last f) = CHR ''f''" by (simp add: last_lower)
  moreover have "lower_char CHR ''x'' = CHR ''x''" by (simp add: lower_char_def)
  ultimately have "last f \<noteq> CHR ''x''" by auto
  with f show ?thesis by simp
qed

lemma path_join_last: "b \<noteq> [] \<Longrightarrow> path_join a b \<noteq> [] \<and> last (path_join a b) = last b"
  by (simp add: path_join_def)

lemma pdf_jobs_paths:
  "(p, x) \<in> set (pdf_jobs output_folder walk) \<Longrightarrow> \<not> ends_x p \<and> ends_x x"
  by (auto simp: pdf_jobs_def ends_x_def path_join_last dest!: pdf_name_last)

lemma agree_refl: "agree m m"
  by (simp add: agree_def)

lemma agree_outcome:
  "agree (files w) (files b) \<Longrightarrow> \<not> ends_x p \<Longrightarrow> outcome w p = outcome b p"
  by (rule outcome_cong) (simp add: agree_def)

lemma agree_Dir: "agree (files w) (files b) \<Longrightarrow> files w x = Some Dir \<longleftrightarrow> files b x = Some Dir"
  by (simp add: agree_def)

lemma agree_write:
  "agree m m' \<Longrightarrow> ends_x x \<Longrightarrow> m x \<noteq> Some Dir \<Longrightarrow> agree (m(x \<mapsto> Xlsx wb)) m'"
  by (auto simp: agree_def)

lemma process_pdf_agree:
  assumes a: "agree (files w1) (files b)" and p: "\<not> ends_x p" and x: "ends_x x"
  shows "snd (process_pdf w1 p x) = snd (process_pdf b p x)"
    and "files (fst (process_pdf w1 p x)) = apply_writes (job_writes b (p, x)) (files w1)"
    and "agree (files (fst (process_pdf w1 p x))) (files b)"
proof -
  have o: "outcome w1 p = outcome b p" using a p by (rule agree_outcome)
  have d: "files w1 x = Some Dir \<longleftrightarrow> files b x = Some Dir" using a by (rule agree_Dir)
  show "snd (process_pdf w1 p x) = snd (process_pdf b p x)"
    by (simp only: result_process_pdf o d)
  show "files (fst (process_pdf w1 p x)) = apply_writes (job_writes b (p, x)) (files w1)"
    using d by (simp add: files_process_pdf o job_writes_def apply_writes_def
        split: option.splits sum.splits)
  show "agree (files (fst (process_pdf w1 p x))) (files b)"
    using a x d by (auto simp: files_process_pdf o agree_write split: option.splits sum.splits)
qed

lemma run_job_step:
  assumes a: "agree (files w) (files b)" and p: "\<not> ends_x p" and x: "ends_x x"
  shows "files (fst (run_job (p, x) (w, failed))) = apply_writes (job_writes b (p, x)) (files w) \<and>
         snd (run_job (p, x) (w, failed)) = failed @ (if job_fails b (p, x) then [p] else []) \<and>
         agree (files (fst (run_job (p, x) (w, failed)))) (files b) \<and>
         os_walk (fst (run_job (p, x) (w, failed))) = os_walk w"
proof -
  obtain w1 where w1: "w1 = prints w [''Processing '' @ p @ '' -> '' @ x]" by blast
  have fw: "files w1 = files w" and ow: "os_walk w1 = os_walk w"
    by (simp_all only: w1 files_prints os_walk_prints)
  have a1: "agree (files w1) (files b)" using a by (simp only: fw)
  note pa = process_pdf_agree[OF a1 p x]
  obtain w2 res where pr: "process_pdf w1 p x = (w2, res)" by (cases "process_pdf w1 p x")
  from pa pr os_walk_process_pdf[of w1 p x] have
    r': "res = snd (process_pdf b p x)" and
    f': "files w2 = apply_writes (job_writes b (p, x)) (files w)" and
    ag': "agree (files w2) (files b)" and wk': "os_walk w2 = os_walk w"
    by (simp_all only: fst_conv snd_conv fw ow)
  have rj: "run_job (p, x) (w, failed) =
              (case res of Inr u \<Rightarrow> (w2, failed)
               | Inl e \<Rightarrow> (prints w2 [''Error processing '' @ p @ '': '' @ exn_str e],
                           failed @ [p]))"
    unfolding run_job_def Let_def prod.case w1[symmetric] pr by (rule refl)
  show ?thesis
  proof (cases res)
    case (Inl e)
    then have "job_fails b (p, x)" using r' by (simp add: job_fails_def)
    with Inl f' ag' wk' show ?thesis by (simp add: rj)
  next
    case (Inr u)
    then have "\<not> job_fails b (p, x)" using r' by (simp add: job_fails_def)
    with Inr f' ag' wk' show ?thesis by (simp add: rj)
  qed
qed

lemma apply_writes_append: "apply_writes (us @ vs) m = apply_writes vs (apply_writes us m)"
  by (simp add: apply_writes_def)

lemma run_jobs:
  assumes "\<forall>(p, x)\<in>set js. \<not> ends_x p \<and> ends_x x" and "agree (files w) (files b)"
  shows "files (fst (fold run_job js (w, failed))) =
           apply_writes (concat (map (job_writes b) js)) (files w) \<and>
         snd (fold run_job js (w, failed)) = failed @ map fst (filter (job_fails b) js) \<and>
         agree (files (fst (fold run_job js (w, failed)))) (files b) \<and>
         os_walk (fst (fold run_job js (w, failed))) = os_walk w"
  using assms
proof (induction js arbitrary: w failed)
  case Nil
  then show ?case by (simp add: apply_writes_def)
next
  case (Cons j js)
  obtain p x where j: "j = (p, x)" by (cases j)
  from Cons.prems j have px: "\<not> ends_x p" "ends_x x" by auto
  obtain w1 f1 where s: "run_job (p, x) (w, failed) = (w1, f1)"
    by (cases "run_job (p, x) (w, failed)")
  from run_job_step[OF Cons.prems(2) px, of failed] have
    st: "files w1 = apply_writes (job_writes b (p, x)) (files w)"
        "f1 = failed @ (if job_fails b (p, x) then [p] else [])"
        "agree (files w1) (files b)" "os_walk w1 = os_walk w"
    unfolding s fst_conv snd_conv by blast+
  from Cons.prems have "\<forall>(p, x)\<in>set js. \<not> ends_x p \<and> ends_x x" by simp
  from Cons.IH[OF this st(3), of f1] have
    ih1: "files (fst (fold run_job js (w1, f1))) =
            apply_writes (concat (map (job_writes b) js)) (files w1)" and
    ih2: "snd (fold run_job js (w1, f1)) = f1 @ map fst (filter (job_fails b) js)" and
    ih3: "agree (files (fst (fold run_job js (w1, f1)))) (files b)" and
    ih4: "os_walk (fst (fold run_job js (w1, f1))) = os_walk w1"
    by blast+
  have e: "fold run_job (j # js) (w, failed) = fold run_job js (w1, f1)"
    by (simp add: j s)
  show ?case
  proof (intro conjI)
    show "files (fst (fold run_job (j # js) (w, failed))) =
            apply_writes (concat (map (job_writes b) (j # js))) (files w)"
      unfolding e by (simp add: ih1 st(1) j apply_writes_append)
    show "snd (fold run_job (j # js) (w, failed)) =
            failed @ map fst (filter (job_fails b) (j # js))"
      using ih2 unfolding e by (cases "job_fails b (p, x)") (simp_all add: st(2) j)
    show "agree (files (fst (fold run_job (j # js) (w, failed)))) (files b)"
      unfolding e by (rule ih3)
    show "os_walk (fst (fold run_job (j # js) (w, failed))) = os_walk w"
      unfolding e by (simp add: ih4 st(4))
  qed
qed

lemma incoming_total: "\<exists>out t. extract_incoming_pipes df = Inr (out, t)"
  using incoming_small[of df] incoming_large[of df] by blast

lemma outgoing_total: "\<exists>out t. extract_outgoing_pipes df = Inr (out, t)"
  using outgoing_small[of df] outgoing_large[of df] by blast

lemma empty_df_new [simp]: "empty_df DataFrame_new"
  by (simp add: empty_df_def DataFrame_new_def DataFrame_columns_def shape0_def)

lemma load_global_re: "load_global ''re'' = Inl (NameError ''re'')"
  by (simp add: load_global_def core_globals_def)

lemma nonempty_grid_pages:
  assumes "\<not> empty_df (snd (extract_raw_data w p))"
  shows "\<exists>pg pgs t. PdfReader w p = Inr (pg # pgs) \<and> extract_text pg = Inr t"
proof -
  obtain pages rows where r: "PdfReader w p = Inr pages" "page_rows pages = Inr rows" "rows \<noteq> []"
    using assms
    by (cases "PdfReader w p"; cases "bind (PdfReader w p) page_rows")
       (auto simp: extract_raw_data_def split: if_splits)
  then obtain pg pgs where pages: "pages = pg # pgs" by (cases pages) auto
  with r(2) obtain t where "extract_text pg = Inr t"
    by (cases "extract_text pg") auto
  with r(1) pages show ?thesis by blast
qed

lemma node_reference_eq:
  assumes "\<not> empty_df (snd (extract_raw_data w p))"
  shows "node_reference w p df =
           (if node_cell_present df then Inr (cell df 8 2) else Inl (NameError ''re''))"
proof -
  from nonempty_grid_pages[OF assms] obtain pg pgs t where
    "PdfReader w p = Inr (pg # pgs)" "extract_text pg = Inr t" by blast
  then show ?thesis
    by (simp add: node_reference_def node_cell_present_def iloc_def getitem_def load_global_re)
qed

lemma outcome_None: "outcome w p = None \<longleftrightarrow> empty_df (snd (extract_raw_data w p))"
  by (simp add: outcome_def Let_def)

lemma outcome_nonempty:
  assumes "\<not> empty_df (snd (extract_raw_data w p))"
  shows "if node_cell_present (snd (extract_raw_data w p))
         then \<exists>wb. outcome w p = Some (Inr wb)
         else outcome w p = Some (Inl (NameError ''re''))"
proof -
  let ?df = "snd (extract_raw_data w p)"
  obtain o1 t1 where i: "extract_incoming_pipes ?df = Inr (o1, t1)"
    using incoming_total by blast
  obtain o2 t2 where o: "extract_outgoing_pipes ?df = Inr (o2, t2)"
    using outgoing_total by blast
  from assms i o show ?thesis
    by (simp add: outcome_def Let_def extract_location_data_eq node_reference_eq)
qed

lemma process_pdf_result:
  "snd (process_pdf w p x) =
     (if empty_df (snd (extract_raw_data w p)) then Inr ()
      else if \<not> node_cell_present (snd (extract_raw_data w p)) then Inl (NameError ''re'')
      else if files w x = Some Dir then Inl IsADirectoryError
      else Inr ())"
proof (cases "empty_df (snd (extract_raw_data w p))")
  case True
  then show ?thesis by (simp add: result_process_pdf outcome_None[symmetric])
next
  case False
  from outcome_nonempty[OF False] False show ?thesis
    by (auto simp: result_process_pdf split: if_splits)
qed

lemma process_pdf_no_write:
  "empty_df (snd (extract_raw_data w p)) \<or> \<not> node_cell_present (snd (extract_raw_data w p)) \<Longrightarrow>
     files (fst (process_pdf w p x)) = files w"
proof (cases "empty_df (snd (extract_raw_data w p))")
  case True
  then show ?thesis by (simp add: files_process_pdf outcome_None[symmetric])
next
  case False
  assume "empty_df (snd (extract_raw_data w p)) \<or> \<not> node_cell_present (snd (extract_raw_data w p))"
  with False outcome_nonempty[OF False] show ?thesis
    by (auto simp: files_process_pdf split: if_splits)
qed

lemma job_fails_iff:
  "job_fails b (p, x) \<longleftrightarrow>
     \<not> empty_df (snd (extract_raw_data b p)) \<and>
     (\<not> node_cell_present (snd (extract_raw_data b p)) \<or> files b x = Some Dir)"
  by (simp add: job_fails_def process_pdf_result)

lemma PdfReader_makedirs: "PdfReader (fst (makedirs w q)) p = PdfReader w p"
  by (auto simp: makedirs_def PdfReader_def split: option.splits node.splits)

lemma extract_raw_data_makedirs:
  "extract_raw_data (fst (makedirs w q)) p = extract_raw_data w p"
  by (simp add: extract_raw_data_def PdfReader_makedirs)

lemma os_walk_makedirs [simp]: "os_walk (fst (makedirs w q)) = os_walk w"
  by (auto simp: makedirs_def split: option.splits node.splits)

lemma makedirs_ok:
  "files w q = None \<or> files w q = Some Dir \<Longrightarrow>
     snd (makedirs w q) = Inr () \<and> files (fst (makedirs w q)) q = Some Dir"
  by (auto simp: makedirs_def)

lemma makedirs_Dir: "files w q = Some Dir \<Longrightarrow> makedirs w q = (w, Inr ())"
  by (simp add: makedirs_def)

lemma makedirs_blocked:
  "files w q = Some n \<Longrightarrow> n \<noteq> Dir \<Longrightarrow> makedirs w q = (w, Inl FileExistsError)"
  by (cases n) (simp_all add: makedirs_def)

lemma apply_writes_lookup:
  "apply_writes ws m k = (case map_of (rev ws) k of Some v \<Rightarrow> Some v | None \<Rightarrow> m k)"
proof (induction ws arbitrary: m)
  case Nil
  then show ?case by (simp add: apply_writes_def)
next
  case (Cons a ws)
  obtain k' v where a: "a = (k', v)" by (cases a)
  have e: "apply_writes (a # ws) m = apply_writes ws (m(k' \<mapsto> v))"
    by (simp add: apply_writes_def a)
  have "apply_writes ws (m(k' \<mapsto> v)) k =
          (case map_of (rev ws) k of Some v \<Rightarrow> Some v | None \<Rightarrow> (m(k' \<mapsto> v)) k)"
    by (rule Cons)
  then show ?case unfolding e
    by (cases "map_of (rev ws) k") (simp_all add: a map_add_def)
qed

lemma apply_writes_idem: "apply_writes ws (apply_writes ws m) = apply_writes ws m"
  by (rule ext) (simp add: apply_writes_lookup split: option.splits)

lemma batch_from:
  assumes mk: "makedirs w out = (w1, Inr ())" and ag: "agree (files w1) (files b)"
  shows "snd (run_processing_batch w inp out) =
           Inr (map fst (filter (job_fails b) (pdf_jobs out (os_walk w1 inp))))"
    and "files (fst (run_processing_batch w inp out)) =
           apply_writes (concat (map (job_writes b) (pdf_jobs out (os_walk w1 inp)))) (files w1)"
    and "agree (files (fst (run_processing_batch w inp out))) (files b)"
    and "os_walk (fst (run_processing_batch w inp out)) = os_walk w1"
proof -
  let ?js = "pdf_jobs out (os_walk w1 inp)"
  have px: "\<forall>(p, x)\<in>set ?js. \<not> ends_x p \<and> ends_x x"
    using pdf_jobs_paths by blast
  obtain w2 failed where f: "fold run_job ?js (w1, []) = (w2, failed)"
    by (cases "fold run_job ?js (w1, [])")
  have r: "run_processing_batch w inp out = (w2, Inr failed)"
    by (simp add: run_processing_batch_def mk fold_walk f)
  from run_jobs[OF px ag, of "[]"] have
    "files w2 = apply_writes (concat (map (job_writes b) ?js)) (files w1)"
    "failed = map fst (filter (job_fails b) ?js)"
    "agree (files w2) (files b)" "os_walk w2 = os_walk w1"
    unfolding f fst_conv snd_conv append_Nil by blast+
  then show
    "snd (run_processing_batch w inp out) = Inr (map fst (filter (job_fails b) ?js))"
    "files (fst (run_processing_batch w inp out)) =
       apply_writes (concat (map (job_writes b) ?js)) (files w1)"
    "agree (files (fst (run_processing_batch w inp out))) (files b)"
    "os_walk (fst (run_processing_batch w inp out)) = os_walk w1"
    unfolding r fst_conv snd_conv by blast+
qed

lemma char_of_vals:
  "char_of (49::nat) = CHR ''1''" "char_of (50::nat) = CHR ''2''" "char_of (51::nat) = CHR ''3''"
  "char_of (100::nat) = CHR ''d''" "char_of (112::nat) = CHR ''p''"
  "char_of (102::nat) = CHR ''f''"
  by code_simp+

lemma example_jobs:
  "pdf_jobs ''out'' (os_walk example_world ''in'') =
     [(''in/a.pdf'', ''out/a.xlsx''), (''in/e.pdf'', ''out/e.xlsx''),
      (''in/sub/g.PDF'', ''out/g.xlsx'')]"
  by (simp add: pdf_jobs_def example_world_def endswith_def lower_def lower_char_def
      path_join_def stem_def rfind_dot_def char_of_vals)

lemma raw_a:
  "extract_raw_data example_world ''in/a.pdf'' =
     ([], DataFrame_rows [[''NODE'', ''REFERENCE'', ''MH12'']] [''Col1'', ''Col2'', ''Col3''])"
  by (simp add: extract_raw_data_def example_world_def PdfReader_def extract_text_def
      splitlines_def split_ws_def islinebreak_def isspace_def Let_def upt_rec char_of_vals)

lemma raw_e: "extract_raw_data example_world ''in/e.pdf'' = ([], DataFrame_new)"
  by (simp add: extract_raw_data_def example_world_def PdfReader_def extract_text_def)

lemma split_line: "split_ws ''X Y MH7'' = [''X'', ''Y'', ''MH7'']"
  by (simp add: split_ws_def isspace_def)

lemma lines9:
  "splitlines nine_lines =
     [''X Y MH7'', ''X Y MH7'', ''X Y MH7'', ''X Y MH7'', ''X Y MH7'', ''X Y MH7'',
      ''X Y MH7'', ''X Y MH7'', ''X Y MH7'']"
  by (simp add: nine_lines_def splitlines_def islinebreak_def)

lemma raw_g:
  "extract_raw_data example_world ''in/sub/g.PDF'' =
     ([], DataFrame_rows
            [[''X'', ''Y'', ''MH7''], [''X'', ''Y'', ''MH7''], [''X'', ''Y'', ''MH7''],
             [''X'', ''Y'', ''MH7''], [''X'', ''Y'', ''MH7''], [''X'', ''Y'', ''MH7''],
             [''X'', ''Y'', ''MH7''], [''X'', ''Y'', ''MH7''], [''X'', ''Y'', ''MH7'']]
            [''Col1'', ''Col2'', ''Col3''])"
proof -
  have p: "PdfReader example_world ''in/sub/g.PDF'' = Inr [Text nine_lines]"
    by (simp add: PdfReader_def example_world_def)
  have n: "nine_lines \<noteq> []" by (simp add: nine_lines_def)
  have r: "page_rows [Text nine_lines] =
             Inr [[''X'', ''Y'', ''MH7''], [''X'', ''Y'', ''MH7''], [''X'', ''Y'', ''MH7''],
                  [''X'', ''Y'', ''MH7''], [''X'', ''Y'', ''MH7''], [''X'', ''Y'', ''MH7''],
                  [''X'', ''Y'', ''MH7''], [''X'', ''Y'', ''MH7''], [''X'', ''Y'', ''MH7'']]"
    using n by (simp add: extract_text_def lines9 split_line)
  have b: "bind (PdfReader example_world ''in/sub/g.PDF'') page_rows =
             Inr [[''X'', ''Y'', ''MH7''], [''X'', ''Y'', ''MH7''], [''X'', ''Y'', ''MH7''],
                  [''X'', ''Y'', ''MH7''], [''X'', ''Y'', ''MH7''], [''X'', ''Y'', ''MH7''],
                  [''X'', ''Y'', ''MH7''], [''X'', ''Y'', ''MH7''], [''X'', ''Y'', ''MH7'']]"
    by (simp only: p r bind_simps)
  show ?thesis
    by (simp add: extract_raw_data_def b Let_def upt_rec char_of_vals)
qed

lemma example_grids:
  "\<not> empty_df (snd (extract_raw_data example_world ''in/a.pdf''))"
  "\<not> node_cell_present (snd (extract_raw_data example_world ''in/a.pdf''))"
  "empty_df (snd (extract_raw_data example_world ''in/e.pdf''))"
  "\<not> empty_df (snd (extract_raw_data example_world ''in/sub/g.PDF''))"
  "node_cell_present (snd (extract_raw_data example_world ''in/sub/g.PDF''))"
  by (simp_all add: raw_a raw_e raw_g)
     (simp_all add: empty_df_def node_cell_present_def DataFrame_rows_def shape0_def shape1_def)

lemma example_out_absent: "files example_world ''out'' = None"
  by (simp add: example_world_def)

lemma example_xlsx_absent:
  "files (fst (makedirs example_world ''out'')) ''out/a.xlsx'' \<noteq> Some Dir"
  "files (fst (makedirs example_world ''out'')) ''out/e.xlsx'' \<noteq> Some Dir"
  "files (fst (makedirs example_world ''out'')) ''out/g.xlsx'' \<noteq> Some Dir"
  by (simp_all add: makedirs_def example_world_def)

lemma example_failed:
  "map fst (filter (job_fails (fst (makedirs example_world ''out'')))
      (pdf_jobs ''out'' (os_walk example_world ''in''))) = [''in/a.pdf'']"
  by (simp add: example_jobs job_fails_iff extract_raw_data_makedirs example_grids
      example_xlsx_absent)

lemma batch_ok:
  assumes "files w out = None \<or> files w out = Some Dir"
  shows "snd (run_processing_batch w inp out) =
           Inr (map fst (filter (job_fails (fst (makedirs w out)))
                  (pdf_jobs out (os_walk w inp))))"
    and "files (fst (run_processing_batch w inp out)) out = Some Dir"
proof -
  obtain w1 where mk: "makedirs w out = (w1, Inr ())" and d: "files w1 out = Some Dir"
    using makedirs_ok[OF assms] by (cases "makedirs w out") auto
  have w1: "w1 = fst (makedirs w out)" by (simp add: mk)
  have ow: "os_walk w1 = os_walk w" by (simp add: w1)
  note bf = batch_from[OF mk agree_refl, of inp]
  from bf(1) show "snd (run_processing_batch w inp out) =
           Inr (map fst (filter (job_fails (fst (makedirs w out)))
                  (pdf_jobs out (os_walk w inp))))"
    by (simp only: ow w1[symmetric])
  from bf(3) d show "files (fst (run_processing_batch w inp out)) out = Some Dir"
    by (simp add: agree_def)
qed

lemma batch_blocked:
  "files w out = Some n \<Longrightarrow> n \<noteq> Dir \<Longrightarrow>
     run_processing_batch w inp out = (w, Inl FileExistsError)"
  by (simp add: run_processing_batch_def makedirs_blocked)

section \<open>The extractors on the store\<close>

lemma location_fresh:
  "fresh_result h (extract_location_data (objs h a)) (extract_location_data_obj h a)"
  by (simp add: fresh_result_def extract_location_data_obj_def extract_location_data_eq
      new_frame_def untouched_def)

lemma incoming_fresh_small:
  "empty_df (objs h a) \<or> shape0 (objs h a) < 70 \<or> shape1 (objs h a) < 11 \<Longrightarrow>
     fresh_result h (extract_incoming_pipes (objs h a)) (extract_incoming_pipes_obj h a)"
  by (simp add: fresh_result_def extract_incoming_pipes_obj_def incoming_small
      new_frame_def untouched_def)

lemma incoming_fresh_large:
  assumes "\<not> (empty_df (objs h a) \<or> shape0 (objs h a) < 70 \<or> shape1 (objs h a) < 11)"
  shows "fresh_result h (extract_incoming_pipes (objs h a)) (extract_incoming_pipes_obj h a)"
  using assms
  by (simp add: fresh_result_def extract_incoming_pipes_obj_def incoming_table table_of_def
      new_frame_def setitem_at_def assign_at_def iloc_slice_def reset_index_def
      iloc_col_block' untouched_def)

lemma outgoing_fresh_small:
  "empty_df (objs h a) \<or> shape0 (objs h a) < 85 \<or> shape1 (objs h a) < 12 \<Longrightarrow>
     fresh_result h (extract_outgoing_pipes (objs h a)) (extract_outgoing_pipes_obj h a)"
  by (simp add: fresh_result_def extract_outgoing_pipes_obj_def outgoing_small
      new_frame_def untouched_def)

lemma outgoing_fresh_large:
  assumes "\<not> (empty_df (objs h a) \<or> shape0 (objs h a) < 85 \<or> shape1 (objs h a) < 12)"
  shows "fresh_result h (extract_outgoing_pipes (objs h a)) (extract_outgoing_pipes_obj h a)"
  using assms
  by (simp add: fresh_result_def extract_outgoing_pipes_obj_def outgoing_table table_of_def
      new_frame_def setitem_at_def assign_at_def iloc_slice_def reset_index_def
      iloc_col_block' untouched_def)

lemma fresh_resultD:
  "fresh_result h pure res \<Longrightarrow>
     \<exists>h' out r. res = Inr (h', out, r) \<and> (\<forall>b<top h. objs h' b = objs h b) \<and>
        top h \<le> r \<and> r < top h' \<and> pure = Inr (out, objs h' r)"
  by (auto simp: fresh_result_def untouched_def split: sum.splits)


section \<open>The claims about the pipeline and the batch\<close>

text \<open>
  C4. The code where the claim applies: whenever the grid is not empty and has no
  non-empty cell at row 9, column 3, \<open>process_pdf\<close> raises NameError for the name \<open>re\<close>
  (the module never imports it) and writes nothing; neither the pattern lookup nor the
  placeholder UNKNOWN_NODE is reached.
\<close>

theorem missing_node_reference_raises:
  "\<not> empty_df (snd (extract_raw_data w p)) \<Longrightarrow>
   \<not> node_cell_present (snd (extract_raw_data w p)) \<Longrightarrow>
     snd (process_pdf w p x) = Inl (NameError ''re'') \<and> files (fst (process_pdf w p x)) = files w"
  by (simp add: process_pdf_result process_pdf_no_write)

text \<open>
  The theorem at a PDF whose only line is "NODE REFERENCE MH12": the pattern would find
  MH12, and on "HELLO" it would find nothing, but the call raises first.
\<close>

theorem missing_node_reference_raises_witness:
  "snd (process_pdf example_world ''in/a.pdf'' ''out/a.xlsx'') = Inl (NameError ''re'') \<and>
   files (fst (process_pdf example_world ''in/a.pdf'' ''out/a.xlsx'')) = files example_world \<and>
   re_search_node ''NODE REFERENCE MH12'' = Some ''MH12'' \<and>
   re_search_node ''HELLO'' = None"
  using missing_node_reference_raises[OF example_grids(1) example_grids(2), of "''out/a.xlsx''"]
  by (simp add: is_upper_or_digit_def isspace_def)

text \<open>
  C6. When the raw extraction of a PDF gives an empty grid, \<open>process_pdf\<close> returns
  normally and leaves every file as it was, and the failure list that
  \<open>run_processing_batch\<close> returns does not hold that path.
\<close>

theorem empty_grid_skipped:
  "(empty_df (snd (extract_raw_data w p)) \<longrightarrow>
      snd (process_pdf w p x) = Inr () \<and> files (fst (process_pdf w p x)) = files w) \<and>
   (\<forall>failed. snd (run_processing_batch w inp out) = Inr failed \<longrightarrow>
      empty_df (snd (extract_raw_data w p)) \<longrightarrow> p \<notin> set failed)"
proof (intro conjI allI impI)
  assume e: "empty_df (snd (extract_raw_data w p))"
  then show "snd (process_pdf w p x) = Inr ()" by (simp add: process_pdf_result)
  from e show "files (fst (process_pdf w p x)) = files w" by (simp add: process_pdf_no_write)
next
  fix failed
  assume r: "snd (run_processing_batch w inp out) = Inr failed"
    and e: "empty_df (snd (extract_raw_data w p))"
  show "p \<notin> set failed"
  proof (cases "files w out = None \<or> files w out = Some Dir")
    case True
    from batch_ok(1)[OF True, of inp] r have
      "failed = map fst (filter (job_fails (fst (makedirs w out)))
                  (pdf_jobs out (os_walk w inp)))" by simp
    moreover have "\<And>y. \<not> job_fails (fst (makedirs w out)) (p, y)"
      using e by (simp add: job_fails_iff extract_raw_data_makedirs)
    ultimately show ?thesis by auto
  next
    case False
    then obtain n where "files w out = Some n" "n \<noteq> Dir" by (cases "files w out") auto
    from batch_blocked[OF this, of inp] r show ?thesis by simp
  qed
qed

text \<open>
  The theorem at the PDF without text of the example folder.
\<close>

theorem empty_grid_skipped_witness:
  "empty_df (snd (extract_raw_data example_world ''in/e.pdf'')) \<and>
   snd (process_pdf example_world ''in/e.pdf'' ''out/e.xlsx'') = Inr () \<and>
   files (fst (process_pdf example_world ''in/e.pdf'' ''out/e.xlsx'')) = files example_world \<and>
   snd (run_processing_batch example_world ''in'' ''out'') = Inr [''in/a.pdf''] \<and>
   ''in/e.pdf'' \<notin> set [''in/a.pdf'']"
proof -
  have r: "snd (run_processing_batch example_world ''in'' ''out'') = Inr [''in/a.pdf'']"
    using batch_ok(1)[of example_world "''out''" "''in''"]
    by (simp add: example_out_absent example_failed)
  from empty_grid_skipped[of example_world "''in/e.pdf''" "''out/e.xlsx''" "''in''" "''out''"]
    example_grids(3) r
  show ?thesis by simp
qed




text \<open>
  C8. A second batch over the same PDFs (the same pairs in the same order, whatever else
  the folders now list) that starts from the files the first batch left produces the same
  files, with the same names and contents, and returns the same result.
\<close>

theorem batch_idempotent:
  assumes "files w' = files (fst (run_processing_batch w inp out))"
    and "pdf_jobs out (os_walk w' inp) = pdf_jobs out (os_walk w inp)"
  shows "files (fst (run_processing_batch w' inp out)) =
           files (fst (run_processing_batch w inp out)) \<and>
         snd (run_processing_batch w' inp out) = snd (run_processing_batch w inp out)"
proof (cases "files w out = None \<or> files w out = Some Dir")
  case True
  obtain w1 where mk: "makedirs w out = (w1, Inr ())" and d: "files w1 out = Some Dir"
    using makedirs_ok[OF True] by (cases "makedirs w out") auto
  have ow: "os_walk w1 = os_walk w" using mk os_walk_makedirs[of w out] by simp
  note bf = batch_from[OF mk agree_refl, of inp]
  from bf(3) have ag: "agree (files w') (files w1)" by (simp only: assms(1))
  with d have "files w' out = Some Dir" by (simp add: agree_def)
  then have mka: "makedirs w' out = (w', Inr ())" by (rule makedirs_Dir)
  note bf2 = batch_from[OF mka ag, of inp]
  have "files (fst (run_processing_batch w' inp out)) =
          files (fst (run_processing_batch w inp out))"
    by (simp only: bf2(2) bf(2) assms ow apply_writes_idem)
  moreover have "snd (run_processing_batch w' inp out) = snd (run_processing_batch w inp out)"
    by (simp only: bf2(1) bf(1) assms ow)
  ultimately show ?thesis by blast
next
  case False
  then obtain n where n: "files w out = Some n" "n \<noteq> Dir" by (cases "files w out") auto
  note b1 = batch_blocked[OF n, of inp]
  from b1 assms(1) have "files w' = files w" by simp
  with n(1) have "files w' out = Some n" by simp
  from batch_blocked[OF this n(2), of inp] b1 assms(1)
  show ?thesis by simp
qed

text \<open>
  The theorem at the example folder, the second walk listing also the workbooks of the
  first run.
\<close>

theorem batch_idempotent_witness:
  "pdf_jobs ''out'' (os_walk second_world ''in'') =
     pdf_jobs ''out'' (os_walk example_world ''in'') \<and>
   files (fst (run_processing_batch second_world ''in'' ''out'')) =
     files (fst (run_processing_batch example_world ''in'' ''out'')) \<and>
   snd (run_processing_batch second_world ''in'' ''out'') = Inr [''in/a.pdf'']"
proof -
  have j: "pdf_jobs ''out'' (os_walk second_world ''in'') =
           pdf_jobs ''out'' (os_walk example_world ''in'')"
    by (simp add: example_jobs)
       (simp add: pdf_jobs_def second_world_def endswith_def lower_def lower_char_def
          path_join_def stem_def rfind_dot_def char_of_vals)
  have f: "files second_world = files (fst (run_processing_batch example_world ''in'' ''out''))"
    by (simp add: second_world_def)
  have r: "snd (run_processing_batch example_world ''in'' ''out'') = Inr [''in/a.pdf'']"
    using batch_ok(1)[of example_world "''out''" "''in''"]
    by (simp add: example_out_absent example_failed)
  from batch_idempotent[OF f j] j r show ?thesis by simp
qed

section \<open>The claim about the input grid\<close>

text \<open>
  C9. For every store and every input grid in it, each of the three field extractors
  returns, leaves every object that existed before the call as it was (so the rows, the
  columns and the cells of the input grid are unchanged), and returns a table at an
  address that did not exist before the call; that table is the one the extractor
  computes from the grid.
\<close>

theorem extractors_leave_input_unchanged:
  "(\<exists>h' out r. extract_incoming_pipes_obj h a = Inr (h', out, r) \<and>
      (\<forall>b<top h. objs h' b = objs h b) \<and> top h \<le> r \<and> r < top h' \<and>
      extract_incoming_pipes (objs h a) = Inr (out, objs h' r)) \<and>
   (\<exists>h' out r. extract_outgoing_pipes_obj h a = Inr (h', out, r) \<and>
      (\<forall>b<top h. objs h' b = objs h b) \<and> top h \<le> r \<and> r < top h' \<and>
      extract_outgoing_pipes (objs h a) = Inr (out, objs h' r)) \<and>
   (\<exists>h' out r. extract_location_data_obj h a = Inr (h', out, r) \<and>
      (\<forall>b<top h. objs h' b = objs h b) \<and> top h \<le> r \<and> r < top h' \<and>
      extract_location_data (objs h a) = Inr (out, objs h' r))"
proof (intro conjI)
  have "fresh_result h (extract_incoming_pipes (objs h a)) (extract_incoming_pipes_obj h a)"
    using incoming_fresh_small incoming_fresh_large by blast
  then show "\<exists>h' out r. extract_incoming_pipes_obj h a = Inr (h', out, r) \<and>
      (\<forall>b<top h. objs h' b = objs h b) \<and> top h \<le> r \<and> r < top h' \<and>
      extract_incoming_pipes (objs h a) = Inr (out, objs h' r)"
    by (rule fresh_resultD)
  have "fresh_result h (extract_outgoing_pipes (objs h a)) (extract_outgoing_pipes_obj h a)"
    using outgoing_fresh_small outgoing_fresh_large by blast
  then show "\<exists>h' out r. extract_outgoing_pipes_obj h a = Inr (h', out, r) \<and>
      (\<forall>b<top h. objs h' b = objs h b) \<and> top h \<le> r \<and> r < top h' \<and>
      extract_outgoing_pipes (objs h a) = Inr (out, objs h' r)"
    by (rule fresh_resultD)
  show "\<exists>h' out r. extract_location_data_obj h a = Inr (h', out, r) \<and>
      (\<forall>b<top h. objs h' b = objs h b) \<and> top h \<le> r \<and> r < top h' \<and>
      extract_location_data (objs h a) = Inr (out, objs h' r)"
    using location_fresh by (rule fresh_resultD)
qed

text \<open>
  The theorem at a store whose only object is a grid of 85 rows and 12 columns, large
  enough for both pipe extractors to build their tables column by column.
\<close>

theorem extractors_leave_input_unchanged_witness:
  "top grid_heap = 1 \<and>
   (\<exists>h' out r. extract_incoming_pipes_obj grid_heap 0 = Inr (h', out, r) \<and>
      objs h' 0 = pipe_grid ''300'' ''x'' ''450'' \<and> 1 \<le> r \<and> r < top h') \<and>
   (\<exists>h' out r. extract_outgoing_pipes_obj grid_heap 0 = Inr (h', out, r) \<and>
      objs h' 0 = pipe_grid ''300'' ''x'' ''450'' \<and> 1 \<le> r \<and> r < top h') \<and>
   (\<exists>h' out r. extract_location_data_obj grid_heap 0 = Inr (h', out, r) \<and>
      objs h' 0 = pipe_grid ''300'' ''x'' ''450'' \<and> 1 \<le> r \<and> r < top h')"
proof -
  have t: "top grid_heap = 1" and o: "objs grid_heap 0 = pipe_grid ''300'' ''x'' ''450''"
    by (simp_all add: grid_heap_def)
  have z: "\<And>P. (\<forall>b<top grid_heap. P b) \<Longrightarrow> P 0"
    by (simp add: t)
  note th = extractors_leave_input_unchanged[of grid_heap 0]
  from th obtain h1 out1 r1 where a: "extract_incoming_pipes_obj grid_heap 0 = Inr (h1, out1, r1)"
    "\<forall>b<top grid_heap. objs h1 b = objs grid_heap b" "top grid_heap \<le> r1" "r1 < top h1"
    by blast
  from th obtain h2 out2 r2 where b: "extract_outgoing_pipes_obj grid_heap 0 = Inr (h2, out2, r2)"
    "\<forall>b<top grid_heap. objs h2 b = objs grid_heap b" "top grid_heap \<le> r2" "r2 < top h2"
    by blast
  from th obtain h3 out3 r3 where c: "extract_location_data_obj grid_heap 0 = Inr (h3, out3, r3)"
    "\<forall>b<top grid_heap. objs h3 b = objs grid_heap b" "top grid_heap \<le> r3" "r3 < top h3"
    by blast
  have a0: "objs h1 0 = objs grid_heap 0" using a(2) by (rule z)
  have b0: "objs h2 0 = objs grid_heap 0" using b(2) by (rule z)
  have c0: "objs h3 0 = objs grid_heap 0" using c(2) by (rule z)
  show ?thesis
    unfolding o[symmetric]
    using t a(1,3,4) b(1,3,4) c(1,3,4) a0 b0 c0 by (intro conjI exI) (assumption | simp only: )+
qed


end
